theory Spec2Isabelle
  imports Complex_Main "HOL-Library.Word" "HOL-Library.Monad_Syntax"
begin

section \<open>JavaScript values\<close>

text \<open>
  A JavaScript string is a sequence of UTF-16 code units; \<open>length\<close>, \<open>includes\<close> and a
  regular expression without the \<open>u\<close> flag all work on code units. The Cyrillic literals
  of the sources are written out as their code units, ASCII literals through \<open>ascii\<close>.
\<close>

type_synonym jsstring = "16 word list"

definition ascii :: "string \<Rightarrow> jsstring" where
  "ascii s = map of_char s"

text \<open>
  A JavaScript number is NaN, an infinity or a finite value. The finite doubles are
  rationals, and the checks of the schema (\<open>Number.isInteger\<close>, \<open>>=\<close>, \<open><=\<close>) are exact
  on them, so a finite number is modelled by its rational value.
\<close>

datatype jsnumber = NaN | PosInfinity | NegInfinity | Num rat

datatype jsval = JUndefined | JNull | JBool bool | JNum jsnumber | JStr jsstring

text \<open>An object is read by property name; an absent property reads as \<open>undefined\<close>.\<close>

type_synonym jsobject = "string \<Rightarrow> jsval"

fun isInteger :: "jsnumber \<Rightarrow> bool" where
  "isInteger (Num r) = (of_int \<lfloor>r\<rfloor> = r)"
| "isInteger _ = False"

fun num_ge :: "jsnumber \<Rightarrow> rat \<Rightarrow> bool" where
  "num_ge (Num r) b = (b \<le> r)"
| "num_ge PosInfinity b = True"
| "num_ge _ b = False"

fun num_le :: "jsnumber \<Rightarrow> rat \<Rightarrow> bool" where
  "num_le (Num r) b = (r \<le> b)"
| "num_le NegInfinity b = True"
| "num_le _ b = False"

text \<open>\<open>String.prototype.includes\<close>: the needle occurs as a contiguous run.\<close>

fun startsWith :: "'a list \<Rightarrow> 'a list \<Rightarrow> bool" where
  "startsWith s [] = True"
| "startsWith [] (n # ns) = False"
| "startsWith (c # cs) (n # ns) = (c = n \<and> startsWith cs ns)"

fun includes_str :: "'a list \<Rightarrow> 'a list \<Rightarrow> bool" where
  "includes_str [] n = (n = [])"
| "includes_str (c # cs) n = (startsWith (c # cs) n \<or> includes_str cs n)"

section \<open>Regular expressions\<close>

text \<open>
  The patterns of the sources are anchored with \<open>^\<close> and \<open>$\<close> and use only character
  classes, concatenation, \<open>?\<close>, \<open>+\<close> and \<open>{n,}\<close>, so \<open>test\<close> is membership of the whole
  string in the language of the pattern. It is decided by derivatives.
\<close>

datatype rexp =
    Fail
  | Eps
  | Cls "16 word \<Rightarrow> bool"
  | Alt rexp rexp
  | Seq rexp rexp
  | Star rexp

fun nullable :: "rexp \<Rightarrow> bool" where
  "nullable Fail = False"
| "nullable Eps = True"
| "nullable (Cls p) = False"
| "nullable (Alt r s) = (nullable r \<or> nullable s)"
| "nullable (Seq r s) = (nullable r \<and> nullable s)"
| "nullable (Star r) = True"

fun alt :: "rexp \<Rightarrow> rexp \<Rightarrow> rexp" where
  "alt Fail s = s"
| "alt r Fail = r"
| "alt r s = Alt r s"

fun seq :: "rexp \<Rightarrow> rexp \<Rightarrow> rexp" where
  "seq Fail s = Fail"
| "seq Eps s = s"
| "seq r s = Seq r s"

fun deriv :: "16 word \<Rightarrow> rexp \<Rightarrow> rexp" where
  "deriv c Fail = Fail"
| "deriv c Eps = Fail"
| "deriv c (Cls p) = (if p c then Eps else Fail)"
| "deriv c (Alt r s) = alt (deriv c r) (deriv c s)"
| "deriv c (Seq r s) =
     (if nullable r then alt (seq (deriv c r) s) (deriv c s) else seq (deriv c r) s)"
| "deriv c (Star r) = seq (deriv c r) (Star r)"

fun test :: "rexp \<Rightarrow> jsstring \<Rightarrow> bool" where
  "test r [] = nullable r"
| "test r (c # cs) = test (deriv c r) cs"

definition Opt :: "rexp \<Rightarrow> rexp" where
  "Opt r = Alt Eps r"

definition Plus :: "rexp \<Rightarrow> rexp" where
  "Plus r = Seq r (Star r)"

fun AtLeast :: "nat \<Rightarrow> rexp \<Rightarrow> rexp" where
  "AtLeast 0 r = Star r"
| "AtLeast (Suc n) r = Seq r (AtLeast n r)"

text \<open>The class \<open>\s\<close> of ECMAScript: white space and line terminators.\<close>

definition white_space :: "16 word \<Rightarrow> bool" where
  "white_space c \<longleftrightarrow>
     c \<in> {0x9, 0xA, 0xB, 0xC, 0xD, 0x20, 0xA0, 0x1680, 0x2028, 0x2029, 0x202F, 0x205F,
          0x3000, 0xFEFF} \<or> (0x2000 \<le> c \<and> c \<le> 0x200A)"

text \<open>\<open>[^\s@]\<close>\<close>

definition not_space_at :: "16 word \<Rightarrow> bool" where
  "not_space_at c \<longleftrightarrow> \<not> white_space c \<and> c \<noteq> 0x40"

text \<open>\<open>[a-zA-Z0-9_]\<close>\<close>

definition word_char :: "16 word \<Rightarrow> bool" where
  "word_char c \<longleftrightarrow>
     (0x61 \<le> c \<and> c \<le> 0x7A) \<or> (0x41 \<le> c \<and> c \<le> 0x5A) \<or> (0x30 \<le> c \<and> c \<le> 0x39) \<or> c = 0x5F"

text \<open>\<open>/^[^\s@]+@[^\s@]+\.[^\s@]+$/\<close>\<close>

definition email_regex :: rexp where
  "email_regex =
     Seq (Plus (Cls not_space_at))
       (Seq (Cls (\<lambda>c. c = 0x40))
         (Seq (Plus (Cls not_space_at))
           (Seq (Cls (\<lambda>c. c = 0x2E)) (Plus (Cls not_space_at)))))"

text \<open>\<open>/^@?[a-zA-Z0-9_]{5,}$/\<close>\<close>

definition tg_username_regex :: rexp where
  "tg_username_regex = Seq (Opt (Cls (\<lambda>c. c = 0x40))) (AtLeast 5 (Cls word_char))"

section \<open>The schema combinators used by the form\<close>

text \<open>
  A schema maps an input value to the parsed output, or to \<open>None\<close> when it raises an
  issue. Only the combinators that \<open>validation.ts\<close> uses are modelled, with the behaviour
  of the validation library: checks chained on a type are all required; \<open>optional\<close> passes
  \<open>undefined\<close> through and otherwise runs the inner schema; \<open>or\<close> is a union that returns
  the result of the first member that accepts the input; \<open>transform\<close> maps the output of
  a schema that accepted.
\<close>

type_synonym 'a schema = "jsval \<Rightarrow> 'a option"

definition check :: "('a \<Rightarrow> bool) \<Rightarrow> 'a schema \<Rightarrow> 'a schema" where
  "check p sch v = (case sch v of None \<Rightarrow> None | Some x \<Rightarrow> if p x then Some x else None)"

fun z_string :: "jsstring schema" where
  "z_string (JStr s) = Some s"
| "z_string _ = None"

definition z_str_max :: "nat \<Rightarrow> jsstring schema \<Rightarrow> jsstring schema" where
  "z_str_max n = check (\<lambda>s. length s \<le> n)"

definition z_regex :: "rexp \<Rightarrow> jsstring schema \<Rightarrow> jsstring schema" where
  "z_regex r = check (test r)"

text \<open>\<open>z.number()\<close> rejects every value that is not a number, and NaN.\<close>

fun z_number :: "jsnumber schema" where
  "z_number (JNum NaN) = None"
| "z_number (JNum n) = Some n"
| "z_number _ = None"

definition z_int :: "jsnumber schema \<Rightarrow> jsnumber schema" where
  "z_int = check isInteger"

definition z_min :: "rat \<Rightarrow> jsnumber schema \<Rightarrow> jsnumber schema" where
  "z_min b = check (\<lambda>n. num_ge n b)"

definition z_max :: "rat \<Rightarrow> jsnumber schema \<Rightarrow> jsnumber schema" where
  "z_max b = check (\<lambda>n. num_le n b)"

fun z_enum :: "jsstring list \<Rightarrow> jsstring schema" where
  "z_enum opts (JStr s) = (if s \<in> set opts then Some s else None)"
| "z_enum opts _ = None"

fun z_literal :: "jsstring \<Rightarrow> jsstring schema" where
  "z_literal l (JStr s) = (if s = l then Some s else None)"
| "z_literal l _ = None"

definition z_optional :: "'a schema \<Rightarrow> 'a option schema" where
  "z_optional sch v = (if v = JUndefined then Some None else map_option Some (sch v))"

definition z_transform :: "('a \<Rightarrow> 'b) \<Rightarrow> 'a schema \<Rightarrow> 'b schema" where
  "z_transform f sch v = map_option f (sch v)"

definition z_or :: "'a schema \<Rightarrow> 'a schema \<Rightarrow> 'a schema" where
  "z_or a b v = (case a v of Some x \<Rightarrow> Some x | None \<Rightarrow> b v)"

section \<open>validation.ts\<close>

definition fefcoOptions :: "jsstring list" where
  "fefcoOptions = [ascii ''0201'', ascii ''0203'', ascii ''0427'', ascii ''0471'', ascii ''0501'']"

definition materialOptions :: "jsstring list" where
  "materialOptions =
     [[0x422, 0x32, 0x33, 0x20, 0x41A, 0x440, 0x430, 0x444, 0x442],
      [0x41C, 0x438, 0x43A, 0x440, 0x43E, 0x433, 0x43E, 0x444, 0x440, 0x43E, 0x43A, 0x430,
       0x440, 0x442, 0x43E, 0x43D, 0x20, 0x41A, 0x440, 0x430, 0x444, 0x442],
      [0x41C, 0x438, 0x43A, 0x440, 0x43E, 0x433, 0x43E, 0x444, 0x440, 0x43E, 0x43A, 0x430,
       0x440, 0x442, 0x43E, 0x43D, 0x20, 0x411, 0x435, 0x43B, 0x44B, 0x439]]"

definition printOptions :: "jsstring list" where
  "printOptions =
     [[0x431, 0x435, 0x437, 0x20, 0x43F, 0x435, 0x447, 0x430, 0x442, 0x438],
      ascii ''1+0'', ascii ''2+0'', ascii ''4+0'', ascii ''4+4'']"

definition slaOptions :: "jsstring list" where
  "slaOptions =
     [[0x441, 0x442, 0x430, 0x43D, 0x434, 0x430, 0x440, 0x442],
      [0x441, 0x440, 0x43E, 0x447, 0x43D, 0x43E],
      [0x44D, 0x43A, 0x43E, 0x43D, 0x43E, 0x43C]]"

text \<open>
  \<open>QuoteFormPayload\<close> of \<open>types.ts\<close>; \<open>QuoteFormData\<close>, the output type of the schema, has
  the same shape. An optional property that is \<open>undefined\<close> is \<open>None\<close>.
\<close>

record QuoteFormPayload =
  fefco :: jsstring
  x_mm :: jsnumber
  y_mm :: jsnumber
  z_mm :: jsnumber
  material :: jsstring
  print :: "jsstring option"
  qty :: jsnumber
  sla_type :: jsstring
  company :: "jsstring option"
  contact_name :: "jsstring option"
  city :: "jsstring option"
  phone :: "jsstring option"
  email :: "jsstring option"
  tg_username :: "jsstring option"

type_synonym QuoteFormData = QuoteFormPayload

text \<open>\<open>.or(z.literal('').transform(() => undefined))\<close>\<close>

definition or_empty_undefined :: "jsstring option schema \<Rightarrow> jsstring option schema" where
  "or_empty_undefined sch = z_or sch (z_transform (\<lambda>_. None) (z_literal []))"

definition issue :: "string \<Rightarrow> 'a option \<Rightarrow> string list" where
  "issue path r = (case r of None \<Rightarrow> [path] | Some _ \<Rightarrow> [])"

text \<open>
  \<open>quoteSchema.safeParse\<close>: every property is parsed by its own schema; the parse
  succeeds with the parsed object when no property raised an issue, and fails with the
  paths of the properties that did (the messages are left out).
\<close>

definition quoteSchema :: "jsobject \<Rightarrow> string list + QuoteFormData" where
  "quoteSchema inp =
    (let r_fefco = z_enum fefcoOptions (inp ''fefco'');
         r_x_mm = z_max 1200 (z_min 20 (z_int z_number)) (inp ''x_mm'');
         r_y_mm = z_max 1200 (z_min 20 (z_int z_number)) (inp ''y_mm'');
         r_z_mm = z_max 1200 (z_min 20 (z_int z_number)) (inp ''z_mm'');
         r_material = z_enum materialOptions (inp ''material'');
         r_print = or_empty_undefined (z_optional (z_enum printOptions)) (inp ''print'');
         r_qty = z_max 100000 (z_min 1 (z_int z_number)) (inp ''qty'');
         r_sla_type = z_enum slaOptions (inp ''sla_type'');
         r_company = or_empty_undefined (z_optional (z_str_max 120 z_string)) (inp ''company'');
         r_contact_name =
           or_empty_undefined (z_optional (z_str_max 80 z_string)) (inp ''contact_name'');
         r_city = or_empty_undefined (z_optional (z_str_max 80 z_string)) (inp ''city'');
         r_phone = or_empty_undefined (z_optional z_string) (inp ''phone'');
         r_email =
           or_empty_undefined (z_optional (z_regex email_regex z_string)) (inp ''email'');
         r_tg_username =
           or_empty_undefined (z_optional (z_regex tg_username_regex z_string))
             (inp ''tg_username'')
     in case do {
          v_fefco \<leftarrow> r_fefco;
          v_x_mm \<leftarrow> r_x_mm;
          v_y_mm \<leftarrow> r_y_mm;
          v_z_mm \<leftarrow> r_z_mm;
          v_material \<leftarrow> r_material;
          v_print \<leftarrow> r_print;
          v_qty \<leftarrow> r_qty;
          v_sla_type \<leftarrow> r_sla_type;
          v_company \<leftarrow> r_company;
          v_contact_name \<leftarrow> r_contact_name;
          v_city \<leftarrow> r_city;
          v_phone \<leftarrow> r_phone;
          v_email \<leftarrow> r_email;
          v_tg_username \<leftarrow> r_tg_username;
          Some \<lparr>fefco = v_fefco, x_mm = v_x_mm, y_mm = v_y_mm, z_mm = v_z_mm,
                material = v_material, print = v_print, qty = v_qty, sla_type = v_sla_type,
                company = v_company, contact_name = v_contact_name, city = v_city,
                phone = v_phone, email = v_email, tg_username = v_tg_username\<rparr>
        } of
          Some data \<Rightarrow> Inr data
        | None \<Rightarrow>
            Inl (issue ''fefco'' r_fefco @ issue ''x_mm'' r_x_mm @ issue ''y_mm'' r_y_mm @
                 issue ''z_mm'' r_z_mm @ issue ''material'' r_material @
                 issue ''print'' r_print @ issue ''qty'' r_qty @
                 issue ''sla_type'' r_sla_type @ issue ''company'' r_company @
                 issue ''contact_name'' r_contact_name @ issue ''city'' r_city @
                 issue ''phone'' r_phone @ issue ''email'' r_email @
                 issue ''tg_username'' r_tg_username))"

text \<open>\<open>toPayload\<close> is a type cast.\<close>

definition toPayload :: "QuoteFormData \<Rightarrow> QuoteFormPayload" where
  "toPayload data = data"

text \<open>The object \<open>base\<close> of \<open>validation.test.ts\<close>.\<close>

definition base :: jsobject where
  "base =
     (\<lambda>_. JUndefined)
       (''fefco'' := JStr (ascii ''0201''),
        ''x_mm'' := JNum (Num 300),
        ''y_mm'' := JNum (Num 200),
        ''z_mm'' := JNum (Num 150),
        ''material'' :=
          JStr [0x41C, 0x438, 0x43A, 0x440, 0x43E, 0x433, 0x43E, 0x444, 0x440, 0x43E, 0x43A,
                0x430, 0x440, 0x442, 0x43E, 0x43D, 0x20, 0x41A, 0x440, 0x430, 0x444, 0x442],
        ''qty'' := JNum (Num 1000),
        ''sla_type'' := JStr [0x441, 0x442, 0x430, 0x43D, 0x434, 0x430, 0x440, 0x442])"

section \<open>The second copy of the schema (\<open>unnamed/part_001\<close>)\<close>

text \<open>
  The second copy validates the email with \<open>z.string().email()\<close>. The pattern behind it
  belongs to the validation library, so the check is a parameter \<open>is_email\<close>.
\<close>

definition z_email :: "(jsstring \<Rightarrow> bool) \<Rightarrow> jsstring schema \<Rightarrow> jsstring schema" where
  "z_email is_email = check is_email"

definition quoteSchema_part_001 ::
  "(jsstring \<Rightarrow> bool) \<Rightarrow> jsobject \<Rightarrow> string list + QuoteFormData" where
  "quoteSchema_part_001 is_email inp =
    (let r_fefco = z_enum fefcoOptions (inp ''fefco'');
         r_x_mm = z_max 1200 (z_min 20 (z_int z_number)) (inp ''x_mm'');
         r_y_mm = z_max 1200 (z_min 20 (z_int z_number)) (inp ''y_mm'');
         r_z_mm = z_max 1200 (z_min 20 (z_int z_number)) (inp ''z_mm'');
         r_material = z_enum materialOptions (inp ''material'');
         r_print = z_optional (z_enum printOptions) (inp ''print'');
         r_qty = z_max 100000 (z_min 1 (z_int z_number)) (inp ''qty'');
         r_sla_type = z_enum slaOptions (inp ''sla_type'');
         r_company = z_optional (z_str_max 120 z_string) (inp ''company'');
         r_contact_name = z_optional (z_str_max 80 z_string) (inp ''contact_name'');
         r_city = z_optional (z_str_max 80 z_string) (inp ''city'');
         r_phone = z_optional z_string (inp ''phone'');
         r_email = z_optional (z_email is_email z_string) (inp ''email'');
         r_tg_username =
           z_optional (z_regex tg_username_regex z_string) (inp ''tg_username'')
     in case do {
          v_fefco \<leftarrow> r_fefco;
          v_x_mm \<leftarrow> r_x_mm;
          v_y_mm \<leftarrow> r_y_mm;
          v_z_mm \<leftarrow> r_z_mm;
          v_material \<leftarrow> r_material;
          v_print \<leftarrow> r_print;
          v_qty \<leftarrow> r_qty;
          v_sla_type \<leftarrow> r_sla_type;
          v_company \<leftarrow> r_company;
          v_contact_name \<leftarrow> r_contact_name;
          v_city \<leftarrow> r_city;
          v_phone \<leftarrow> r_phone;
          v_email \<leftarrow> r_email;
          v_tg_username \<leftarrow> r_tg_username;
          Some \<lparr>fefco = v_fefco, x_mm = v_x_mm, y_mm = v_y_mm, z_mm = v_z_mm,
                material = v_material, print = v_print, qty = v_qty, sla_type = v_sla_type,
                company = v_company, contact_name = v_contact_name, city = v_city,
                phone = v_phone, email = v_email, tg_username = v_tg_username\<rparr>
        } of
          Some data \<Rightarrow> Inr data
        | None \<Rightarrow>
            Inl (issue ''fefco'' r_fefco @ issue ''x_mm'' r_x_mm @ issue ''y_mm'' r_y_mm @
                 issue ''z_mm'' r_z_mm @ issue ''material'' r_material @
                 issue ''print'' r_print @ issue ''qty'' r_qty @
                 issue ''sla_type'' r_sla_type @ issue ''company'' r_company @
                 issue ''contact_name'' r_contact_name @ issue ''city'' r_city @
                 issue ''phone'' r_phone @ issue ''email'' r_email @
                 issue ''tg_username'' r_tg_username))"

text \<open>\<open>(data.f as any) === '' ? undefined : data.f\<close>\<close>

definition empty_to_undefined :: "jsstring option \<Rightarrow> jsstring option" where
  "empty_to_undefined f = (if f = Some [] then None else f)"

definition toPayload_part_001 :: "QuoteFormData \<Rightarrow> QuoteFormPayload" where
  "toPayload_part_001 data =
     data\<lparr>print := empty_to_undefined (print data),
          company := empty_to_undefined (company data),
          contact_name := empty_to_undefined (contact_name data),
          city := empty_to_undefined (city data),
          phone := empty_to_undefined (phone data),
          email := empty_to_undefined (email data),
          tg_username := empty_to_undefined (tg_username data)\<rparr>"

section \<open>api.ts\<close>

datatype ApiResponse = ApiSuccess jsstring jsstring | ApiError jsstring

text \<open>A thrown or rejected value, kept as the string that \<open>String(err)\<close> gives for it.\<close>

datatype js_error = Thrown jsstring

fun String :: "js_error \<Rightarrow> jsstring" where
  "String (Thrown s) = s"

text \<open>
  What \<open>postQuote\<close> reads of the response of \<open>fetch\<close>: the \<open>content-type\<close> header
  (\<open>None\<close> when \<open>headers.get\<close> returns null), the status text, and the outcomes of
  \<open>res.text()\<close> and of \<open>res.json()\<close>, each of which may reject. The decoded body is
  typed \<open>ApiResponse\<close>, as the cast in the source has it.
\<close>

record Response =
  content_type :: "jsstring option"
  statusText :: jsstring
  body_text :: "js_error + jsstring"
  body_json :: "js_error + ApiResponse"

text \<open>
  The network: what \<open>fetch\<close> answers to the posted payload, or the error it rejects
  with. Building the request (the URL, the CSRF header read from the cookie, the JSON
  text of the payload) and the abort signal are part of this parameter.
\<close>

type_synonym fetch = "QuoteFormPayload \<Rightarrow> js_error + Response"

text \<open>One call of \<open>console.log\<close> is the list of its arguments.\<close>

datatype log_arg = LogStr jsstring | LogObj QuoteFormPayload

type_synonym console = "log_arg list list"

text \<open>
  \<open>postQuote\<close> returns the value its promise resolves to, or \<open>Inl\<close> the error it rejects
  with, and the console after its call of \<open>console.log\<close>.
\<close>

definition postQuote ::
  "fetch \<Rightarrow> QuoteFormPayload \<Rightarrow> console \<Rightarrow> (js_error + ApiResponse) \<times> console" where
  "postQuote fetch payload con =
    (let con' = con @ [[LogStr (ascii ''postQuote called''), LogObj payload]] in
     case fetch payload of
       Inl err \<Rightarrow> (Inl err, con')
     | Inr res \<Rightarrow>
         let contentType = (case content_type res of None \<Rightarrow> [] | Some h \<Rightarrow> h) in
         if \<not> includes_str contentType (ascii ''application/json'') then
           let text = (case body_text res of Inl _ \<Rightarrow> [] | Inr t \<Rightarrow> t) in
           (Inr (ApiError (ascii ''Unexpected response: '' @
                            (if text \<noteq> [] then text else statusText res))), con')
         else (body_json res, con'))"

section \<open>App.tsx and FormPrimitives.tsx\<close>

datatype Status = Idle | Loading | Success | Error

datatype event =
    cpq_form_view
  | cpq_form_submit
  | cpq_api_ok jsstring
  | cpq_api_error jsstring
  | cpq_pdf_link_click

record AppState =
  status :: Status
  result :: "ApiResponse option"
  console :: console
  dataLayer :: "event list"

definition pushEvent :: "event \<Rightarrow> AppState \<Rightarrow> AppState" where
  "pushEvent e st = st\<lparr>dataLayer := dataLayer st @ [e]\<rparr>"

text \<open>
  The callback given to \<open>handleSubmit\<close>, run to its end: the state after the awaited
  \<open>postQuote\<close> has settled. A rejection of \<open>postQuote\<close> is caught and turned into
  \<open>{ok: false, error: String(err)}\<close>.
\<close>

definition onSubmit :: "fetch \<Rightarrow> QuoteFormData \<Rightarrow> AppState \<Rightarrow> AppState" where
  "onSubmit fetch values st0 =
    (let st1 = st0\<lparr>console := console st0 @ [[LogStr (ascii ''onSubmit values''), LogObj values]]\<rparr>;
         st2 = pushEvent cpq_form_submit st1;
         st3 = st2\<lparr>status := Loading, result := None\<rparr>;
         payload = toPayload values;
         (settled, con) = postQuote fetch payload (console st3);
         st4 = st3\<lparr>console := con\<rparr>;
         res = (case settled of Inl err \<Rightarrow> ApiError (String err) | Inr r \<Rightarrow> r)
     in case res of
          ApiSuccess pdf_url lead_id \<Rightarrow>
            (pushEvent (cpq_api_ok lead_id) st4)\<lparr>result := Some res, status := Success\<rparr>
        | ApiError message \<Rightarrow>
            (pushEvent (cpq_api_error message) st4)\<lparr>result := Some res, status := Error\<rparr>)"

text \<open>
  \<open>handleSubmit\<close> runs the resolver, \<open>quoteSchema\<close>, on the values of the form and calls
  the callback with the parsed values only when the parse succeeds.
\<close>

definition handleSubmit :: "fetch \<Rightarrow> jsobject \<Rightarrow> AppState \<Rightarrow> AppState" where
  "handleSubmit fetch form st =
     (case quoteSchema form of Inl issues \<Rightarrow> st | Inr values \<Rightarrow> onSubmit fetch values st)"

text \<open>The state when the form is first shown; \<open>main.tsx\<close> has pushed \<open>cpq_form_view\<close>.\<close>

definition initial :: AppState where
  "initial = \<lparr>status = Idle, result = None, console = [], dataLayer = [cpq_form_view]\<rparr>"

text \<open>The text of \<open>StatusBar\<close>; \<open>message || ''\<close> is the message, or the empty string.\<close>

definition StatusBar :: "Status \<Rightarrow> jsstring option \<Rightarrow> jsstring" where
  "StatusBar st message =
     (if st = Loading then
        [0x41E, 0x442, 0x43F, 0x440, 0x430, 0x432, 0x43B, 0x44F, 0x435, 0x43C, 0x20, 0x437,
         0x430, 0x43F, 0x440, 0x43E, 0x441, 0x2026]
      else if st = Success then
        [0x413, 0x43E, 0x442, 0x43E, 0x432, 0x43E, 0x2E, 0x20, 0x50, 0x44, 0x46, 0x20, 0x43E,
         0x442, 0x43F, 0x440, 0x430, 0x432, 0x43B, 0x435, 0x43D, 0x20, 0x432, 0x20, 0x54, 0x65,
         0x6C, 0x65, 0x67, 0x72, 0x61, 0x6D, 0x2E]
      else (case message of None \<Rightarrow> [] | Some m \<Rightarrow> m))"

text \<open>\<open>ResultCard\<close>: the \<open>href\<close> of the download link and the lead id shown beside it.\<close>

record ResultCard =
  href :: jsstring
  leadId :: jsstring

text \<open>What \<open>App\<close> renders below the form from its state.\<close>

record View =
  status_bar :: jsstring
  retry_button :: bool
  result_card :: "ResultCard option"

definition App :: "AppState \<Rightarrow> View" where
  "App st =
     \<lparr>status_bar =
        StatusBar (status st)
          (case result st of Some (ApiError e) \<Rightarrow> Some e | _ \<Rightarrow> None),
      retry_button = (status st = Error),
      result_card =
        (case result st of
           Some (ApiSuccess pdf_url lead_id) \<Rightarrow> Some \<lparr>href = pdf_url, leadId = lead_id\<rparr>
         | _ \<Rightarrow> None)\<rparr>"

section \<open>Example inputs\<close>

text \<open>
  The request of the README (\<open>unnamed/part_000\<close>) as form values: print "1+0", a
  company, a contact name, a city, the phone "+7 999 000-00-00", the email
  "test@example.com" and the Telegram name "@client".
\<close>

definition readme_request :: QuoteFormData where
  "readme_request =
     \<lparr>fefco = ascii ''0201'', x_mm = Num 300, y_mm = Num 200, z_mm = Num 150,
      material =
        [0x41C, 0x438, 0x43A, 0x440, 0x43E, 0x433, 0x43E, 0x444, 0x440, 0x43E, 0x43A,
         0x430, 0x440, 0x442, 0x43E, 0x43D, 0x20, 0x41A, 0x440, 0x430, 0x444, 0x442],
      print = Some (ascii ''1+0''), qty = Num 1000,
      sla_type = [0x441, 0x442, 0x430, 0x43D, 0x434, 0x430, 0x440, 0x442],
      company = Some [0x41E, 0x41E, 0x41E, 0x20, 0x420, 0x43E, 0x43C, 0x430, 0x448, 0x43A, 0x430],
      contact_name = Some [0x418, 0x432, 0x430, 0x43D],
      city = Some [0x423, 0x444, 0x430],
      phone = Some (ascii ''+7 999 000-00-00''),
      email = Some (ascii ''test@example.com''),
      tg_username = Some (ascii ''@client'')\<rparr>"

text \<open>The same request as the object of raw form values that \<open>handleSubmit\<close> validates.\<close>

definition readme_form :: jsobject where
  "readme_form =
     (\<lambda>_. JUndefined)
       (''fefco'' := JStr (ascii ''0201''),
        ''x_mm'' := JNum (Num 300),
        ''y_mm'' := JNum (Num 200),
        ''z_mm'' := JNum (Num 150),
        ''material'' :=
          JStr [0x41C, 0x438, 0x43A, 0x440, 0x43E, 0x433, 0x43E, 0x444, 0x440, 0x43E, 0x43A,
                0x430, 0x440, 0x442, 0x43E, 0x43D, 0x20, 0x41A, 0x440, 0x430, 0x444, 0x442],
        ''print'' := JStr (ascii ''1+0''),
        ''qty'' := JNum (Num 1000),
        ''sla_type'' := JStr [0x441, 0x442, 0x430, 0x43D, 0x434, 0x430, 0x440, 0x442],
        ''company'' :=
          JStr [0x41E, 0x41E, 0x41E, 0x20, 0x420, 0x43E, 0x43C, 0x430, 0x448, 0x43A, 0x430],
        ''contact_name'' := JStr [0x418, 0x432, 0x430, 0x43D],
        ''city'' := JStr [0x423, 0x444, 0x430],
        ''phone'' := JStr (ascii ''+7 999 000-00-00''),
        ''email'' := JStr (ascii ''test@example.com''),
        ''tg_username'' := JStr (ascii ''@client''))"

text \<open>
  A server, or a proxy in front of it, that answers every request with a plain-text
  error page carrying a stack trace.
\<close>

definition traceback_server :: fetch where
  "traceback_server payload =
     Inr \<lparr>content_type = Some (ascii ''text/plain; charset=utf-8''),
          statusText = ascii ''Internal Server Error'',
          body_text = Inr (ascii ''Traceback (most recent call last): KeyError: OPENAI_API_KEY''),
          body_json = Inl (Thrown (ascii ''SyntaxError: Unexpected token T in JSON at position 0''))\<rparr>"

section \<open>The lookup resolver\<close>

text \<open>
  Modelled from the spec: the backend is not among the sources (only its README is), so
  the data of the resolver follows sections 3 and 6 of the specification. Text of the
  backend is a sequence of Unicode code points.
\<close>

type_synonym unicode = "nat list"

text \<open>
  Modelled from the spec: the request as the resolver reads it, that is the seven key
  fields and the quantity; the contact fields play no part in the resolution.
\<close>

record QuoteRequest =
  req_fefco :: unicode
  req_x_mm :: int
  req_y_mm :: int
  req_z_mm :: int
  req_material :: unicode
  req_print :: "unicode option"
  req_sla_type :: unicode
  req_qty :: int

text \<open>
  Modelled from the spec: a catalog entry, keyed by (fefco, x, y, z, material, print,
  sla_type), with its quantity band and SKU. The lead times, prices, margins and terms
  are further columns that the resolver does not read; the functions below accept a
  record with any such extension and return it unchanged.
\<close>

record PriceRecord =
  rec_fefco :: unicode
  rec_x_mm :: int
  rec_y_mm :: int
  rec_z_mm :: int
  rec_material :: unicode
  rec_print :: "unicode option"
  rec_sla_type :: unicode
  qty_min :: int
  qty_max :: int
  sku :: unicode

text \<open>Modelled from the spec: the matching policies of the resolver.\<close>

datatype policy = Strict | Fallback

text \<open>Modelled from the spec: the failure taxonomy of section 7.\<close>

datatype failure = Validation | NotFound | Upstream | Timeout | Internal

text \<open>
  Modelled from the spec: "a candidate is eligible only if all of fefco, x, y, z,
  material, print, sla_type match the request exactly".
\<close>

definition eligible :: "QuoteRequest \<Rightarrow> 'a PriceRecord_scheme \<Rightarrow> bool" where
  "eligible req c \<longleftrightarrow>
     rec_fefco c = req_fefco req \<and> rec_x_mm c = req_x_mm req \<and> rec_y_mm c = req_y_mm req \<and>
     rec_z_mm c = req_z_mm req \<and> rec_material c = req_material req \<and>
     rec_print c = req_print req \<and> rec_sla_type c = req_sla_type req"

text \<open>Modelled from the spec: the band [qty_min, qty_max] contains the quantity.\<close>

definition in_band :: "int \<Rightarrow> 'a PriceRecord_scheme \<Rightarrow> bool" where
  "in_band q c \<longleftrightarrow> qty_min c \<le> q \<and> q \<le> qty_max c"

text \<open>
  Modelled from the spec: "the absolute distance between the requested quantity and the
  band midpoint (qty_min+qty_max)/2", as an exact rational.
\<close>

definition distance :: "int \<Rightarrow> 'a PriceRecord_scheme \<Rightarrow> rat" where
  "distance q c = \<bar>of_int q - of_int (qty_min c + qty_max c) / 2\<bar>"

text \<open>
  Modelled from the spec: a candidate replaces the best one so far when it is nearer, or
  equally near with a smaller qty_min ("ties broken by the smallest qty_min").
\<close>

definition nearer :: "int \<Rightarrow> 'a PriceRecord_scheme \<Rightarrow> 'a PriceRecord_scheme \<Rightarrow> bool" where
  "nearer q c best \<longleftrightarrow>
     distance q c < distance q best \<or>
     (distance q c = distance q best \<and> qty_min c < qty_min best)"

text \<open>Modelled from the spec: the selection of the fallback policy, one pass over the eligible candidates.\<close>

fun nearest :: "int \<Rightarrow> 'a PriceRecord_scheme \<Rightarrow> 'a PriceRecord_scheme list \<Rightarrow> 'a PriceRecord_scheme" where
  "nearest q best [] = best"
| "nearest q best (c # cs) = nearest q (if nearer q c best then c else best) cs"

text \<open>
  Modelled from the spec: the resolver of section 4.2. Under \<open>strict\<close> it returns the
  eligible candidate whose band contains the requested quantity (the first one in the
  sequence), under \<open>fallback\<close> the nearest eligible candidate; with no such candidate it
  fails \<open>NotFound\<close>. It is a function of its arguments and has no other effect.
\<close>

definition resolve ::
  "policy \<Rightarrow> QuoteRequest \<Rightarrow> 'a PriceRecord_scheme list \<Rightarrow> failure + 'a PriceRecord_scheme" where
  "resolve p req candidates =
    (let els = filter (eligible req) candidates in
     case p of
       Strict \<Rightarrow>
         (case find (in_band (req_qty req)) els of
            None \<Rightarrow> Inl NotFound
          | Some c \<Rightarrow> Inr c)
     | Fallback \<Rightarrow>
         (case els of
            [] \<Rightarrow> Inl NotFound
          | c # cs \<Rightarrow> Inr (nearest (req_qty req) c cs)))"

text \<open>
  Modelled from the spec: the request of Scenario A of section 8, with the quantity
  1000, and two catalog entries with its key fields and the bands [100, 500] and
  [501, 2000] of the fallback example.
\<close>

definition scenario_request :: QuoteRequest where
  "scenario_request =
     \<lparr>req_fefco = [0x30, 0x32, 0x30, 0x31], req_x_mm = 300, req_y_mm = 200, req_z_mm = 150,
      req_material =
        [0x41C, 0x438, 0x43A, 0x440, 0x43E, 0x433, 0x43E, 0x444, 0x440, 0x43E, 0x43A,
         0x430, 0x440, 0x442, 0x43E, 0x43D, 0x20, 0x41A, 0x440, 0x430, 0x444, 0x442],
      req_print = None,
      req_sla_type = [0x441, 0x442, 0x430, 0x43D, 0x434, 0x430, 0x440, 0x442],
      req_qty = 1000\<rparr>"

text \<open>Modelled from the spec: a catalog entry with the key fields of Scenario A and a given band.\<close>

definition band_record :: "int \<Rightarrow> int \<Rightarrow> unicode \<Rightarrow> PriceRecord" where
  "band_record lo hi s =
     \<lparr>rec_fefco = [0x30, 0x32, 0x30, 0x31], rec_x_mm = 300, rec_y_mm = 200, rec_z_mm = 150,
      rec_material =
        [0x41C, 0x438, 0x43A, 0x440, 0x43E, 0x433, 0x43E, 0x444, 0x440, 0x43E, 0x43A,
         0x430, 0x440, 0x442, 0x43E, 0x43D, 0x20, 0x41A, 0x440, 0x430, 0x444, 0x442],
      rec_print = None,
      rec_sla_type = [0x441, 0x442, 0x430, 0x43D, 0x434, 0x430, 0x440, 0x442],
      qty_min = lo, qty_max = hi, sku = s\<rparr>"

section \<open>Facts about the schema combinators\<close>

lemma ascii_eq_Nil: "ascii s = [] \<longleftrightarrow> s = []"
  by (simp add: ascii_def)

lemma check_Some: "check p sch v = Some x \<longleftrightarrow> sch v = Some x \<and> p x"
  by (auto simp: check_def split: option.splits)

lemma z_number_Some: "z_number v = Some n \<longleftrightarrow> v = JNum n \<and> n \<noteq> NaN"
  by (cases "(v)" rule: z_number.cases) auto

lemma isInteger_of_int: "isInteger (Num (of_int i))"
  by simp

lemma isInteger_iff: "isInteger n \<longleftrightarrow> (\<exists>i. n = Num (of_int i))"
proof
  assume "isInteger n"
  then have "n = Num (of_int \<lfloor>case n of Num r \<Rightarrow> r | _ \<Rightarrow> 0\<rfloor>)"
    by (cases n) auto
  then show "\<exists>i. n = Num (of_int i)" ..
next
  assume "\<exists>i. n = Num (of_int i)"
  then show "isInteger n"
    using isInteger_of_int by blast
qed

text \<open>\<open>z.number().int().min(lo).max(hi)\<close> accepts exactly the integers from lo to hi.\<close>

lemma int_range_Some:
  "z_max (of_int hi) (z_min (of_int lo) (z_int z_number)) v = Some n \<longleftrightarrow>
     (\<exists>i. v = JNum (Num (of_int i)) \<and> n = Num (of_int i) \<and> lo \<le> i \<and> i \<le> hi)"
  by (auto simp: z_max_def z_min_def z_int_def check_Some z_number_Some isInteger_iff)

text \<open>The parse succeeds with \<open>d\<close> exactly when every property parses to the field of \<open>d\<close>.\<close>

lemma quoteSchema_Inr:
  "quoteSchema inp = Inr d \<longleftrightarrow>
     z_enum fefcoOptions (inp ''fefco'') = Some (fefco d) \<and>
     z_max 1200 (z_min 20 (z_int z_number)) (inp ''x_mm'') = Some (x_mm d) \<and>
     z_max 1200 (z_min 20 (z_int z_number)) (inp ''y_mm'') = Some (y_mm d) \<and>
     z_max 1200 (z_min 20 (z_int z_number)) (inp ''z_mm'') = Some (z_mm d) \<and>
     z_enum materialOptions (inp ''material'') = Some (material d) \<and>
     or_empty_undefined (z_optional (z_enum printOptions)) (inp ''print'') = Some (print d) \<and>
     z_max 100000 (z_min 1 (z_int z_number)) (inp ''qty'') = Some (qty d) \<and>
     z_enum slaOptions (inp ''sla_type'') = Some (sla_type d) \<and>
     or_empty_undefined (z_optional (z_str_max 120 z_string)) (inp ''company'') =
       Some (company d) \<and>
     or_empty_undefined (z_optional (z_str_max 80 z_string)) (inp ''contact_name'') =
       Some (contact_name d) \<and>
     or_empty_undefined (z_optional (z_str_max 80 z_string)) (inp ''city'') = Some (city d) \<and>
     or_empty_undefined (z_optional z_string) (inp ''phone'') = Some (phone d) \<and>
     or_empty_undefined (z_optional (z_regex email_regex z_string)) (inp ''email'') =
       Some (email d) \<and>
     or_empty_undefined (z_optional (z_regex tg_username_regex z_string))
       (inp ''tg_username'') = Some (tg_username d)"
  unfolding quoteSchema_def Let_def
  by (cases d) (auto split: option.splits Option.bind_splits)

lemma quoteSchema_total: "(\<exists>e. quoteSchema inp = Inl e) \<or> (\<exists>d. quoteSchema inp = Inr d)"
  by (cases "quoteSchema inp") auto

lemmas schema_defs =
  check_def z_str_max_def z_regex_def z_int_def z_min_def z_max_def z_optional_def
  z_transform_def z_or_def or_empty_undefined_def issue_def

lemmas options_defs =
  fefcoOptions_def materialOptions_def printOptions_def slaOptions_def ascii_def

text \<open>The case "valid base" of \<open>validation.test.ts\<close>, with the parsed object.\<close>

lemma quoteSchema_base:
  "quoteSchema base =
     Inr \<lparr>fefco = ascii ''0201'', x_mm = Num 300, y_mm = Num 200, z_mm = Num 150,
          material =
            [0x41C, 0x438, 0x43A, 0x440, 0x43E, 0x433, 0x43E, 0x444, 0x440, 0x43E, 0x43A,
             0x430, 0x440, 0x442, 0x43E, 0x43D, 0x20, 0x41A, 0x440, 0x430, 0x444, 0x442],
          print = None, qty = Num 1000,
          sla_type = [0x441, 0x442, 0x430, 0x43D, 0x434, 0x430, 0x440, 0x442],
          company = None, contact_name = None, city = None, phone = None, email = None,
          tg_username = None\<rparr>"
  by (simp add: quoteSchema_def base_def schema_defs options_defs)

section \<open>The numeric fields of the form\<close>

text \<open>
  Claim C3. \<open>quoteSchema\<close> accepts an input only if \<open>x_mm\<close>, \<open>y_mm\<close> and \<open>z_mm\<close> are
  integers from 20 to 1200 and \<open>qty\<close> is an integer from 1 to 100000; an input in which
  one of them is anything else (not a number, NaN, an infinity, a fraction, out of
  range) is rejected; and an accepted input stays accepted when these four fields are
  set to any integers within the ranges, the boundary values 20, 1200, 1 and 100000
  among them.
\<close>

theorem quoteSchema_integer_bounds:
  "(quoteSchema inp = Inr d \<longrightarrow>
      (\<exists>x y z q :: int.
         inp ''x_mm'' = JNum (Num (of_int x)) \<and> 20 \<le> x \<and> x \<le> 1200 \<and>
         inp ''y_mm'' = JNum (Num (of_int y)) \<and> 20 \<le> y \<and> y \<le> 1200 \<and>
         inp ''z_mm'' = JNum (Num (of_int z)) \<and> 20 \<le> z \<and> z \<le> 1200 \<and>
         inp ''qty'' = JNum (Num (of_int q)) \<and> 1 \<le> q \<and> q \<le> 100000)) \<and>
   (\<not> (\<exists>x y z q :: int.
         inp ''x_mm'' = JNum (Num (of_int x)) \<and> 20 \<le> x \<and> x \<le> 1200 \<and>
         inp ''y_mm'' = JNum (Num (of_int y)) \<and> 20 \<le> y \<and> y \<le> 1200 \<and>
         inp ''z_mm'' = JNum (Num (of_int z)) \<and> 20 \<le> z \<and> z \<le> 1200 \<and>
         inp ''qty'' = JNum (Num (of_int q)) \<and> 1 \<le> q \<and> q \<le> 100000) \<longrightarrow>
      (\<exists>issues. quoteSchema inp = Inl issues)) \<and>
   (quoteSchema inp = Inr d \<and> 20 \<le> x' \<and> x' \<le> 1200 \<and> 20 \<le> y' \<and> y' \<le> 1200 \<and>
      20 \<le> z' \<and> z' \<le> 1200 \<and> 1 \<le> q' \<and> q' \<le> 100000 \<longrightarrow>
      quoteSchema
        (inp(''x_mm'' := JNum (Num (of_int x')), ''y_mm'' := JNum (Num (of_int y')),
             ''z_mm'' := JNum (Num (of_int z')), ''qty'' := JNum (Num (of_int q')))) =
      Inr (d\<lparr>x_mm := Num (of_int x'), y_mm := Num (of_int y'), z_mm := Num (of_int z'),
             qty := Num (of_int q')\<rparr>))"
proof -
  have only_if: "\<exists>x y z q :: int.
         inp ''x_mm'' = JNum (Num (of_int x)) \<and> 20 \<le> x \<and> x \<le> 1200 \<and>
         inp ''y_mm'' = JNum (Num (of_int y)) \<and> 20 \<le> y \<and> y \<le> 1200 \<and>
         inp ''z_mm'' = JNum (Num (of_int z)) \<and> 20 \<le> z \<and> z \<le> 1200 \<and>
         inp ''qty'' = JNum (Num (of_int q)) \<and> 1 \<le> q \<and> q \<le> 100000"
    if "quoteSchema inp = Inr d'" for d'
    using that int_range_Some [of 1200 20] int_range_Some [of 100000 1]
    by (simp add: quoteSchema_Inr) blast
  have dim:
    "z_max 1200 (z_min 20 (z_int z_number)) (JNum (Num (of_int i))) = Some (Num (of_int i))"
    if "20 \<le> i" "i \<le> 1200" for i :: int
    using that int_range_Some [of 1200 20] by simp
  have quantity:
    "z_max 100000 (z_min 1 (z_int z_number)) (JNum (Num (of_int i))) = Some (Num (of_int i))"
    if "1 \<le> i" "i \<le> 100000" for i :: int
    using that int_range_Some [of 100000 1] by simp
  have within: "quoteSchema
        (inp(''x_mm'' := JNum (Num (of_int x')), ''y_mm'' := JNum (Num (of_int y')),
             ''z_mm'' := JNum (Num (of_int z')), ''qty'' := JNum (Num (of_int q')))) =
      Inr (d\<lparr>x_mm := Num (of_int x'), y_mm := Num (of_int y'), z_mm := Num (of_int z'),
             qty := Num (of_int q')\<rparr>)"
    if "quoteSchema inp = Inr d" "20 \<le> x'" "x' \<le> 1200" "20 \<le> y'" "y' \<le> 1200"
       "20 \<le> z'" "z' \<le> 1200" "1 \<le> q'" "q' \<le> 100000"
    using that(1) dim [OF that(2,3)] dim [OF that(4,5)] dim [OF that(6,7)]
      quantity [OF that(8,9)]
    by (simp add: quoteSchema_Inr)
  from only_if quoteSchema_total [of inp] within show ?thesis
    by blast
qed

text \<open>
  At the object \<open>base\<close> of the tests: the lower and upper boundary values are accepted,
  and \<open>x_mm = 1201\<close> is rejected.
\<close>

theorem quoteSchema_integer_bounds_witness:
  "quoteSchema
     (base(''x_mm'' := JNum (Num 20), ''y_mm'' := JNum (Num 1200), ''z_mm'' := JNum (Num 20),
           ''qty'' := JNum (Num 100000))) =
   Inr \<lparr>fefco = ascii ''0201'', x_mm = Num 20, y_mm = Num 1200, z_mm = Num 20,
        material =
          [0x41C, 0x438, 0x43A, 0x440, 0x43E, 0x433, 0x43E, 0x444, 0x440, 0x43E, 0x43A,
           0x430, 0x440, 0x442, 0x43E, 0x43D, 0x20, 0x41A, 0x440, 0x430, 0x444, 0x442],
        print = None, qty = Num 100000,
        sla_type = [0x441, 0x442, 0x430, 0x43D, 0x434, 0x430, 0x440, 0x442],
        company = None, contact_name = None, city = None, phone = None, email = None,
        tg_username = None\<rparr> \<and>
   quoteSchema
     (base(''x_mm'' := JNum (Num 1200), ''y_mm'' := JNum (Num 20), ''z_mm'' := JNum (Num 1200),
           ''qty'' := JNum (Num 1))) =
   Inr \<lparr>fefco = ascii ''0201'', x_mm = Num 1200, y_mm = Num 20, z_mm = Num 1200,
        material =
          [0x41C, 0x438, 0x43A, 0x440, 0x43E, 0x433, 0x43E, 0x444, 0x440, 0x43E, 0x43A,
           0x430, 0x440, 0x442, 0x43E, 0x43D, 0x20, 0x41A, 0x440, 0x430, 0x444, 0x442],
        print = None, qty = Num 1,
        sla_type = [0x441, 0x442, 0x430, 0x43D, 0x434, 0x430, 0x440, 0x442],
        company = None, contact_name = None, city = None, phone = None, email = None,
        tg_username = None\<rparr> \<and>
   (\<exists>issues. quoteSchema (base(''x_mm'' := JNum (Num 1201))) = Inl issues)"
proof -
  have "\<not> (\<exists>x y z q :: int.
         (base(''x_mm'' := JNum (Num 1201))) ''x_mm'' = JNum (Num (of_int x)) \<and>
           20 \<le> x \<and> x \<le> 1200 \<and>
         (base(''x_mm'' := JNum (Num 1201))) ''y_mm'' = JNum (Num (of_int y)) \<and>
           20 \<le> y \<and> y \<le> 1200 \<and>
         (base(''x_mm'' := JNum (Num 1201))) ''z_mm'' = JNum (Num (of_int z)) \<and>
           20 \<le> z \<and> z \<le> 1200 \<and>
         (base(''x_mm'' := JNum (Num 1201))) ''qty'' = JNum (Num (of_int q)) \<and>
           1 \<le> q \<and> q \<le> 100000)"
    by simp
  then show ?thesis
    using quoteSchema_integer_bounds [of base _ 20 1200 20 100000]
      quoteSchema_integer_bounds [of base _ 1200 20 1200 1]
      quoteSchema_integer_bounds [of "base(''x_mm'' := JNum (Num 1201))"]
      quoteSchema_base
    by simp
qed

section \<open>The print field\<close>

lemma print_Some:
  "or_empty_undefined (z_optional (z_enum printOptions)) v = Some p \<longleftrightarrow>
     (v = JUndefined \<and> p = None) \<or> (v = JStr [] \<and> p = None) \<or>
     (\<exists>s. v = JStr s \<and> s \<in> set printOptions \<and> p = Some s)"
  by (cases v)
     (auto simp: or_empty_undefined_def z_or_def z_optional_def z_transform_def
           printOptions_def ascii_def
           split: option.splits)

lemma quoteSchema_issue_print:
  "or_empty_undefined (z_optional (z_enum printOptions)) (inp ''print'') = None \<Longrightarrow>
   \<exists>issues. quoteSchema inp = Inl issues \<and> ''print'' \<in> set issues"
  unfolding quoteSchema_def Let_def
  by (simp add: issue_def split: option.splits Option.bind_splits)

text \<open>
  Claim C7. \<open>print\<close> is an optional enum: an accepted input stays accepted when its
  \<open>print\<close> is made absent or one of the five options, and the parsed \<open>print\<close> is then
  \<open>undefined\<close> or that option; an input whose \<open>print\<close> is any other value than the empty
  string is rejected, with an issue at \<open>print\<close>.
\<close>

theorem quoteSchema_print_optional_enum:
  "(quoteSchema inp = Inr d \<and>
    v \<in> {JUndefined,
         JStr [0x431, 0x435, 0x437, 0x20, 0x43F, 0x435, 0x447, 0x430, 0x442, 0x438],
         JStr (ascii ''1+0''), JStr (ascii ''2+0''), JStr (ascii ''4+0''),
         JStr (ascii ''4+4'')} \<longrightarrow>
      quoteSchema (inp(''print'' := v)) =
      Inr (d\<lparr>print := (case v of JStr s \<Rightarrow> Some s | _ \<Rightarrow> None)\<rparr>)) \<and>
   (inp ''print'' \<notin>
      {JUndefined, JStr [],
       JStr [0x431, 0x435, 0x437, 0x20, 0x43F, 0x435, 0x447, 0x430, 0x442, 0x438],
       JStr (ascii ''1+0''), JStr (ascii ''2+0''), JStr (ascii ''4+0''),
       JStr (ascii ''4+4'')} \<longrightarrow>
      (\<exists>issues. quoteSchema inp = Inl issues \<and> ''print'' \<in> set issues))"
proof (intro conjI impI)
  assume a: "quoteSchema inp = Inr d \<and>
    v \<in> {JUndefined,
         JStr [0x431, 0x435, 0x437, 0x20, 0x43F, 0x435, 0x447, 0x430, 0x442, 0x438],
         JStr (ascii ''1+0''), JStr (ascii ''2+0''), JStr (ascii ''4+0''),
         JStr (ascii ''4+4'')}"
  then have "or_empty_undefined (z_optional (z_enum printOptions)) v =
      Some (case v of JStr s \<Rightarrow> Some s | _ \<Rightarrow> None)"
    unfolding print_Some by (auto simp: printOptions_def)
  with a show "quoteSchema (inp(''print'' := v)) =
      Inr (d\<lparr>print := (case v of JStr s \<Rightarrow> Some s | _ \<Rightarrow> None)\<rparr>)"
    by (simp add: quoteSchema_Inr)
next
  assume "inp ''print'' \<notin>
      {JUndefined, JStr [],
       JStr [0x431, 0x435, 0x437, 0x20, 0x43F, 0x435, 0x447, 0x430, 0x442, 0x438],
       JStr (ascii ''1+0''), JStr (ascii ''2+0''), JStr (ascii ''4+0''),
       JStr (ascii ''4+4'')}"
  then have "\<forall>p. or_empty_undefined (z_optional (z_enum printOptions)) (inp ''print'') \<noteq> Some p"
    unfolding print_Some by (auto simp: printOptions_def)
  then have "or_empty_undefined (z_optional (z_enum printOptions)) (inp ''print'') = None"
    by (cases "or_empty_undefined (z_optional (z_enum printOptions)) (inp ''print'')") auto
  then show "\<exists>issues. quoteSchema inp = Inl issues \<and> ''print'' \<in> set issues"
    by (rule quoteSchema_issue_print)
qed

text \<open>
  At the object \<open>base\<close> of the tests: \<open>print = "1+0"\<close> is accepted and parsed to itself,
  \<open>print = "5+5"\<close> is rejected.
\<close>

theorem quoteSchema_print_optional_enum_witness:
  "quoteSchema (base(''print'' := JStr (ascii ''1+0''))) =
   Inr \<lparr>fefco = ascii ''0201'', x_mm = Num 300, y_mm = Num 200, z_mm = Num 150,
        material =
          [0x41C, 0x438, 0x43A, 0x440, 0x43E, 0x433, 0x43E, 0x444, 0x440, 0x43E, 0x43A,
           0x430, 0x440, 0x442, 0x43E, 0x43D, 0x20, 0x41A, 0x440, 0x430, 0x444, 0x442],
        print = Some (ascii ''1+0''), qty = Num 1000,
        sla_type = [0x441, 0x442, 0x430, 0x43D, 0x434, 0x430, 0x440, 0x442],
        company = None, contact_name = None, city = None, phone = None, email = None,
        tg_username = None\<rparr> \<and>
   (\<exists>issues. quoteSchema (base(''print'' := JStr (ascii ''5+5''))) = Inl issues \<and>
      ''print'' \<in> set issues)"
  using quoteSchema_print_optional_enum [of base _ "JStr (ascii ''1+0'')"]
    quoteSchema_print_optional_enum [of "base(''print'' := JStr (ascii ''5+5''))"]
    quoteSchema_base
  by (simp add: ascii_def)

section \<open>The two copies of the schema\<close>

lemma quoteSchema_part_001_Inr:
  "quoteSchema_part_001 is_email inp = Inr d \<longleftrightarrow>
     z_enum fefcoOptions (inp ''fefco'') = Some (fefco d) \<and>
     z_max 1200 (z_min 20 (z_int z_number)) (inp ''x_mm'') = Some (x_mm d) \<and>
     z_max 1200 (z_min 20 (z_int z_number)) (inp ''y_mm'') = Some (y_mm d) \<and>
     z_max 1200 (z_min 20 (z_int z_number)) (inp ''z_mm'') = Some (z_mm d) \<and>
     z_enum materialOptions (inp ''material'') = Some (material d) \<and>
     z_optional (z_enum printOptions) (inp ''print'') = Some (print d) \<and>
     z_max 100000 (z_min 1 (z_int z_number)) (inp ''qty'') = Some (qty d) \<and>
     z_enum slaOptions (inp ''sla_type'') = Some (sla_type d) \<and>
     z_optional (z_str_max 120 z_string) (inp ''company'') = Some (company d) \<and>
     z_optional (z_str_max 80 z_string) (inp ''contact_name'') = Some (contact_name d) \<and>
     z_optional (z_str_max 80 z_string) (inp ''city'') = Some (city d) \<and>
     z_optional z_string (inp ''phone'') = Some (phone d) \<and>
     z_optional (z_email is_email z_string) (inp ''email'') = Some (email d) \<and>
     z_optional (z_regex tg_username_regex z_string) (inp ''tg_username'') =
       Some (tg_username d)"
  unfolding quoteSchema_part_001_def Let_def
  by (cases d) (auto split: option.splits Option.bind_splits)

text \<open>Away from the empty string the added union member never accepts.\<close>

lemma or_empty_undefined_other:
  "v \<noteq> JStr [] \<Longrightarrow> or_empty_undefined sch v = sch v"
  by (cases v) (auto simp: or_empty_undefined_def z_or_def z_transform_def split: option.splits)

text \<open>The string schemas return the input string itself.\<close>

lemma z_string_Some: "z_string v = Some s \<longleftrightarrow> v = JStr s"
  by (cases v) auto

lemma z_enum_Some: "z_enum opts v = Some s \<longleftrightarrow> v = JStr s \<and> s \<in> set opts"
  by (cases v) auto

lemma optional_string_not_empty:
  assumes "z_optional sch v = Some f" and "v \<noteq> JStr []"
    and "\<And>s. sch v = Some s \<Longrightarrow> v = JStr s"
  shows "empty_to_undefined f = f"
  using assms by (auto simp: z_optional_def empty_to_undefined_def split: if_splits)

lemma email_checks_agree:
  assumes "\<forall>s. v = JStr s \<longrightarrow> is_email s = test email_regex s"
  shows "z_optional (z_email is_email z_string) v = z_optional (z_regex email_regex z_string) v"
  using assms by (cases v) (simp_all add: z_optional_def z_email_def z_regex_def check_def)

text \<open>
  Claim C8, as stated, fails: with \<open>print\<close> the empty string (what the select of the
  form gives for "no print") the schema of \<open>validation.ts\<close> accepts the object and the
  copy in \<open>part_001\<close> rejects it, whatever the email check of the library is (here it is
  taken equal to the pattern of \<open>validation.ts\<close>).
\<close>

theorem schema_copies_differ_on_empty_print:
  "quoteSchema (base(''print'' := JStr [])) =
   Inr \<lparr>fefco = ascii ''0201'', x_mm = Num 300, y_mm = Num 200, z_mm = Num 150,
        material =
          [0x41C, 0x438, 0x43A, 0x440, 0x43E, 0x433, 0x43E, 0x444, 0x440, 0x43E, 0x43A,
           0x430, 0x440, 0x442, 0x43E, 0x43D, 0x20, 0x41A, 0x440, 0x430, 0x444, 0x442],
        print = None, qty = Num 1000,
        sla_type = [0x441, 0x442, 0x430, 0x43D, 0x434, 0x430, 0x440, 0x442],
        company = None, contact_name = None, city = None, phone = None, email = None,
        tg_username = None\<rparr> \<and>
   quoteSchema_part_001 (test email_regex) (base(''print'' := JStr [])) = Inl [''print'']"
  by (simp add: quoteSchema_def quoteSchema_part_001_def base_def schema_defs options_defs
        z_email_def)

text \<open>
  Claim C8, amended. On every input in which none of the seven optional fields is the
  empty string, and on whose email string (if any) the email check of the library
  agrees with the pattern of \<open>validation.ts\<close>, one copy accepts if and only if the other
  does, and the payloads of the two copies are equal.
\<close>

theorem schema_copies_agree_without_empty_strings:
  assumes no_empty:
      "\<forall>k \<in> {''print'', ''company'', ''contact_name'', ''city'', ''phone'', ''email'',
              ''tg_username''}. inp k \<noteq> JStr []"
    and email_agree: "\<forall>s. inp ''email'' = JStr s \<longrightarrow> is_email s = test email_regex s"
  shows "((\<exists>d. quoteSchema inp = Inr d) \<longleftrightarrow> (\<exists>d'. quoteSchema_part_001 is_email inp = Inr d')) \<and>
         (\<forall>d d'. quoteSchema inp = Inr d \<and> quoteSchema_part_001 is_email inp = Inr d' \<longrightarrow>
            toPayload d = toPayload_part_001 d')"
proof -
  have same: "quoteSchema inp = Inr d \<longleftrightarrow> quoteSchema_part_001 is_email inp = Inr d" for d
    using no_empty email_checks_agree [OF email_agree]
    by (simp add: quoteSchema_Inr quoteSchema_part_001_Inr or_empty_undefined_other)
  have fixed: "toPayload_part_001 d = d" if d: "quoteSchema_part_001 is_email inp = Inr d" for d
  proof -
    from d no_empty have "empty_to_undefined (print d) = print d"
      by (auto simp: quoteSchema_part_001_Inr z_enum_Some
            intro!: optional_string_not_empty [of _ "inp ''print''"])
    moreover from d no_empty have "empty_to_undefined (company d) = company d"
      by (auto simp: quoteSchema_part_001_Inr z_str_max_def check_Some z_string_Some
            intro!: optional_string_not_empty [of _ "inp ''company''"])
    moreover from d no_empty have "empty_to_undefined (contact_name d) = contact_name d"
      by (auto simp: quoteSchema_part_001_Inr z_str_max_def check_Some z_string_Some
            intro!: optional_string_not_empty [of _ "inp ''contact_name''"])
    moreover from d no_empty have "empty_to_undefined (city d) = city d"
      by (auto simp: quoteSchema_part_001_Inr z_str_max_def check_Some z_string_Some
            intro!: optional_string_not_empty [of _ "inp ''city''"])
    moreover from d no_empty have "empty_to_undefined (phone d) = phone d"
      by (auto simp: quoteSchema_part_001_Inr z_string_Some
            intro!: optional_string_not_empty [of _ "inp ''phone''"])
    moreover from d no_empty have "empty_to_undefined (email d) = email d"
      by (auto simp: quoteSchema_part_001_Inr z_email_def check_Some z_string_Some
            intro!: optional_string_not_empty [of _ "inp ''email''"])
    moreover from d no_empty have "empty_to_undefined (tg_username d) = tg_username d"
      by (auto simp: quoteSchema_part_001_Inr z_regex_def check_Some z_string_Some
            intro!: optional_string_not_empty [of _ "inp ''tg_username''"])
    ultimately show ?thesis
      by (simp add: toPayload_part_001_def)
  qed
  from same fixed show ?thesis
    by (auto simp: toPayload_def)
qed

text \<open>
  At the object \<open>base\<close> of the tests with \<open>print = "1+0"\<close> and a company, for the email
  check equal to the pattern: both copies accept.
\<close>

theorem schema_copies_agree_without_empty_strings_witness:
  "(base(''print'' := JStr (ascii ''1+0''), ''company'' := JStr (ascii ''Acme''))) ''print'' \<noteq>
     JStr [] \<and>
   (base(''print'' := JStr (ascii ''1+0''), ''company'' := JStr (ascii ''Acme''))) ''company'' \<noteq>
     JStr [] \<and>
   (base(''print'' := JStr (ascii ''1+0''), ''company'' := JStr (ascii ''Acme''))) ''email'' =
     JUndefined \<and>
   (\<exists>d. quoteSchema (base(''print'' := JStr (ascii ''1+0''), ''company'' := JStr (ascii ''Acme''))) =
      Inr d \<and>
      quoteSchema_part_001 (test email_regex)
        (base(''print'' := JStr (ascii ''1+0''), ''company'' := JStr (ascii ''Acme''))) = Inr d \<and>
      toPayload d = toPayload_part_001 d \<and> company (toPayload d) = Some (ascii ''Acme''))"
proof -
  let ?inp = "base(''print'' := JStr (ascii ''1+0''), ''company'' := JStr (ascii ''Acme''))"
  have h: "\<forall>k \<in> {''print'', ''company'', ''contact_name'', ''city'', ''phone'', ''email'',
              ''tg_username''}. ?inp k \<noteq> JStr []"
    by (simp add: base_def ascii_def)
  have e: "\<forall>s. ?inp ''email'' = JStr s \<longrightarrow> test email_regex s = test email_regex s"
    by simp
  obtain d where d: "quoteSchema ?inp = Inr d" "company d = Some (ascii ''Acme'')"
    by (simp add: quoteSchema_def base_def schema_defs options_defs)
  from schema_copies_agree_without_empty_strings [OF h e] d
  obtain d' where d': "quoteSchema_part_001 (test email_regex) ?inp = Inr d'"
    by blast
  with schema_copies_agree_without_empty_strings [OF h e] d
  have "toPayload d = toPayload_part_001 d'"
    by blast
  moreover from d(1) d' have "d = d'"
    using h e email_checks_agree [of "?inp ''email''" "test email_regex"]
    by (simp add: quoteSchema_Inr quoteSchema_part_001_Inr or_empty_undefined_other
          z_email_def z_regex_def)
  ultimately show ?thesis
    using d d' by (auto simp: toPayload_def base_def ascii_def)
qed

section \<open>Empty strings in the optional fields\<close>

text \<open>
  The union member added for the empty string is reached only when the first member
  rejects. The enum and the two patterns reject the empty string, so for \<open>print\<close>,
  \<open>email\<close> and \<open>tg_username\<close> it is parsed to \<open>undefined\<close>.
\<close>

lemma empty_print_email_tg_username_undefined:
  "or_empty_undefined (z_optional (z_enum printOptions)) (JStr []) = Some None"
  "or_empty_undefined (z_optional (z_regex email_regex z_string)) (JStr []) = Some None"
  "or_empty_undefined (z_optional (z_regex tg_username_regex z_string)) (JStr []) = Some None"
  by (simp_all add: schema_defs options_defs email_regex_def tg_username_regex_def Plus_def
        Opt_def eval_nat_numeral)

text \<open>
  A plain string schema accepts the empty string, so for \<open>company\<close>, \<open>contact_name\<close>,
  \<open>city\<close> and \<open>phone\<close> the first member of the union wins and the empty string stays.
\<close>

lemma empty_plain_string_kept:
  "or_empty_undefined (z_optional (z_str_max n z_string)) (JStr []) = Some (Some [])"
  "or_empty_undefined (z_optional z_string) (JStr []) = Some (Some [])"
  by (simp_all add: schema_defs)

text \<open>
  Claim C9 fails on the code: with \<open>company\<close>, \<open>contact_name\<close>, \<open>city\<close> and \<open>phone\<close> the
  empty string, the parse succeeds and the payload made by \<open>toPayload\<close> carries the four
  empty strings.
\<close>

theorem toPayload_keeps_empty_strings:
  "map_sum id toPayload
     (quoteSchema
        (base(''company'' := JStr [], ''contact_name'' := JStr [], ''city'' := JStr [],
              ''phone'' := JStr []))) =
   Inr \<lparr>fefco = ascii ''0201'', x_mm = Num 300, y_mm = Num 200, z_mm = Num 150,
        material =
          [0x41C, 0x438, 0x43A, 0x440, 0x43E, 0x433, 0x43E, 0x444, 0x440, 0x43E, 0x43A,
           0x430, 0x440, 0x442, 0x43E, 0x43D, 0x20, 0x41A, 0x440, 0x430, 0x444, 0x442],
        print = None, qty = Num 1000,
        sla_type = [0x441, 0x442, 0x430, 0x43D, 0x434, 0x430, 0x440, 0x442],
        company = Some [], contact_name = Some [], city = Some [], phone = Some [],
        email = None, tg_username = None\<rparr>"
  by (simp add: quoteSchema_def toPayload_def base_def schema_defs options_defs)

section \<open>Responses that are not JSON\<close>

text \<open>
  Claim C10. When the \<open>content-type\<close> of the response does not contain
  "application/json" (or the header is missing), \<open>postQuote\<close> resolves, it does not
  reject, to \<open>{ok: false, error}\<close>, where the error is "Unexpected response: " followed
  by the text of the response, or by the status text when the text is empty or cannot
  be read. The outcome of \<open>res.json()\<close> plays no part: the result is the same whatever
  \<open>body_json\<close> is.
\<close>

theorem postQuote_non_json_response:
  assumes "fetch payload = Inr res"
    and "\<not> includes_str (case content_type res of None \<Rightarrow> [] | Some h \<Rightarrow> h)
             (ascii ''application/json'')"
  shows "fst (postQuote fetch payload con) =
         Inr (ApiError (ascii ''Unexpected response: '' @
           (case body_text res of
              Inl err \<Rightarrow> statusText res
            | Inr t \<Rightarrow> if t = [] then statusText res else t)))"
  using assms by (simp add: postQuote_def Let_def split: sum.splits)

text \<open>A 502 page served as \<open>text/html\<close>, whose JSON decoding would throw.\<close>

theorem postQuote_non_json_response_witness:
  "fst (postQuote
     (\<lambda>_. Inr \<lparr>content_type = Some (ascii ''text/html''), statusText = ascii ''Bad Gateway'',
               body_text = Inr (ascii ''<h1>502</h1>''),
               body_json = Inl (Thrown (ascii ''SyntaxError: Unexpected token <''))\<rparr>)
     readme_request []) =
   Inr (ApiError (ascii ''Unexpected response: <h1>502</h1>''))"
proof -
  let ?res = "\<lparr>content_type = Some (ascii ''text/html''), statusText = ascii ''Bad Gateway'',
               body_text = Inr (ascii ''<h1>502</h1>''),
               body_json = Inl (Thrown (ascii ''SyntaxError: Unexpected token <''))\<rparr>"
  have ct: "\<not> includes_str (case content_type ?res of None \<Rightarrow> [] | Some h \<Rightarrow> h)
             (ascii ''application/json'')"
    by (simp add: ascii_def)
  have "(\<lambda>_::QuoteFormPayload. Inr ?res :: js_error + Response) readme_request = Inr ?res"
    by simp
  from postQuote_non_json_response [OF this ct, where con = "[]"] show ?thesis
    by (simp add: ascii_def)
qed

section \<open>The submit handler and what the form shows\<close>

lemma onSubmit_result:
  "result (onSubmit fetch values st) =
     Some (case fst (postQuote fetch (toPayload values)
                      (console st @ [[LogStr (ascii ''onSubmit values''), LogObj values]])) of
             Inl err \<Rightarrow> ApiError (String err)
           | Inr r \<Rightarrow> r)"
  by (simp add: onSubmit_def Let_def pushEvent_def split: prod.splits sum.splits ApiResponse.splits)

lemma onSubmit_status:
  "status (onSubmit fetch values st) =
     (case result (onSubmit fetch values st) of
        Some (ApiSuccess p l) \<Rightarrow> Success
      | _ \<Rightarrow> Error)"
  by (simp add: onSubmit_def Let_def pushEvent_def split: prod.splits sum.splits ApiResponse.splits)

lemma postQuote_json_response:
  assumes "fetch payload = Inr res"
    and "includes_str (case content_type res of None \<Rightarrow> [] | Some h \<Rightarrow> h)
           (ascii ''application/json'')"
  shows "fst (postQuote fetch payload con) = body_json res"
  using assms by (simp add: postQuote_def Let_def)

lemma postQuote_rejected:
  "fetch payload = Inl err \<Longrightarrow> fst (postQuote fetch payload con) = Inl err"
  by (simp add: postQuote_def Let_def)

text \<open>
  Claim C4. When the response is JSON with body \<open>body\<close>, the form ends in the state
  \<open>success\<close> with a result card whose link is \<open>pdf_url\<close> and whose lead id is \<open>lead_id\<close>
  if and only if the body is \<open>{ok: true, pdf_url, lead_id}\<close>; with the body
  \<open>{ok: false, error}\<close> it ends in the state \<open>error\<close>, shows no result card, and the
  status bar shows that error string.
\<close>

theorem onSubmit_json_body:
  assumes "fetch (toPayload values) = Inr res"
    and "includes_str (case content_type res of None \<Rightarrow> [] | Some h \<Rightarrow> h)
           (ascii ''application/json'')"
    and "body_json res = Inr body"
  shows "((status (onSubmit fetch values st) = Success \<and>
           result_card (App (onSubmit fetch values st)) =
             Some \<lparr>href = pdf_url, leadId = lead_id\<rparr>) \<longleftrightarrow>
          body = ApiSuccess pdf_url lead_id) \<and>
         (body = ApiError e \<longrightarrow>
            status (onSubmit fetch values st) = Error \<and>
            result_card (App (onSubmit fetch values st)) = None \<and>
            status_bar (App (onSubmit fetch values st)) = e)"
proof -
  have "result (onSubmit fetch values st) = Some body"
    using postQuote_json_response [of fetch "toPayload values" res, OF assms(1,2)] assms(3)
    by (simp add: onSubmit_result)
  then show ?thesis
    by (cases body) (auto simp: onSubmit_status App_def StatusBar_def)
qed

text \<open>The responses of the tests "handles 200 OK" and "handles 404 error".\<close>

theorem onSubmit_json_body_witness:
  "status (onSubmit
     (\<lambda>_. Inr \<lparr>content_type = Some (ascii ''application/json''), statusText = ascii ''OK'',
               body_text = Inr [],
               body_json = Inr (ApiSuccess (ascii ''https://x/pdf/web-123.pdf'') (ascii ''web-123''))\<rparr>)
     readme_request initial) = Success \<and>
   result_card (App (onSubmit
     (\<lambda>_. Inr \<lparr>content_type = Some (ascii ''application/json''), statusText = ascii ''OK'',
               body_text = Inr [],
               body_json = Inr (ApiSuccess (ascii ''https://x/pdf/web-123.pdf'') (ascii ''web-123''))\<rparr>)
     readme_request initial)) =
     Some \<lparr>href = ascii ''https://x/pdf/web-123.pdf'', leadId = ascii ''web-123''\<rparr> \<and>
   status_bar (App (onSubmit
     (\<lambda>_. Inr \<lparr>content_type = Some (ascii ''application/json''), statusText = ascii ''Not Found'',
               body_text = Inr [],
               body_json = Inr (ApiError (ascii ''not found''))\<rparr>)
     readme_request initial)) = ascii ''not found''"
proof -
  let ?ok = "\<lparr>content_type = Some (ascii ''application/json''), statusText = ascii ''OK'',
               body_text = Inr [],
               body_json = Inr (ApiSuccess (ascii ''https://x/pdf/web-123.pdf'') (ascii ''web-123''))\<rparr>"
  let ?ko = "\<lparr>content_type = Some (ascii ''application/json''), statusText = ascii ''Not Found'',
               body_text = Inr [],
               body_json = Inr (ApiError (ascii ''not found''))\<rparr>"
  have ct: "includes_str (case content_type ?ok of None \<Rightarrow> [] | Some h \<Rightarrow> h)
             (ascii ''application/json'')"
    "includes_str (case content_type ?ko of None \<Rightarrow> [] | Some h \<Rightarrow> h)
             (ascii ''application/json'')"
    by (simp_all add: ascii_def)
  let ?fok = "(\<lambda>_. Inr ?ok) :: fetch"
  let ?fko = "(\<lambda>_. Inr ?ko) :: fetch"
  have f: "?fok (toPayload readme_request) = Inr ?ok" "?fko (toPayload readme_request) = Inr ?ko"
    by simp_all
  have b: "body_json ?ok = Inr (ApiSuccess (ascii ''https://x/pdf/web-123.pdf'') (ascii ''web-123''))"
    "body_json ?ko = Inr (ApiError (ascii ''not found''))"
    by simp_all
  from onSubmit_json_body [of ?fok readme_request ?ok _ initial
      "ascii ''https://x/pdf/web-123.pdf''" "ascii ''web-123''", OF f(1) ct(1) b(1)]
    onSubmit_json_body [of ?fko readme_request ?ko _ initial _ _ "ascii ''not found''",
      OF f(2) ct(2) b(2)]
  show ?thesis
    by simp
qed

section \<open>The message of a failed request\<close>

text \<open>
  Claim C2, as stated, fails: when the server answers with a plain-text page, the status
  bar shows the raw text of the response, here a stack trace, behind the prefix
  "Unexpected response: ".
\<close>

theorem status_bar_shows_raw_response_text:
  "status (onSubmit traceback_server readme_request initial) = Error \<and>
   status_bar (App (onSubmit traceback_server readme_request initial)) =
     ascii ''Unexpected response: Traceback (most recent call last): KeyError: OPENAI_API_KEY'' \<and>
   includes_str (status_bar (App (onSubmit traceback_server readme_request initial)))
     (ascii ''Traceback (most recent call last): KeyError: OPENAI_API_KEY'')"
  by (simp add: onSubmit_result onSubmit_status App_def StatusBar_def postQuote_def
        traceback_server_def ascii_def)

text \<open>
  Claim C2, amended. For every failed request the status bar shows exactly the error
  string of the result: the string form of the error when \<open>fetch\<close> rejects or the JSON
  body cannot be decoded; "Unexpected response: " followed by the raw text of the
  response, or by its status text when the text is empty or unreadable, when the
  response is not JSON; and the \<open>error\<close> string of the server when the body is
  \<open>{ok: false, error}\<close>.
\<close>

theorem status_bar_shows_result_error:
  "(fetch (toPayload values) = Inl err \<longrightarrow>
      status (onSubmit fetch values st) = Error \<and>
      status_bar (App (onSubmit fetch values st)) = String err) \<and>
   (fetch (toPayload values) = Inr res \<and>
    \<not> includes_str (case content_type res of None \<Rightarrow> [] | Some h \<Rightarrow> h)
        (ascii ''application/json'') \<longrightarrow>
      status (onSubmit fetch values st) = Error \<and>
      status_bar (App (onSubmit fetch values st)) =
        ascii ''Unexpected response: '' @
          (case body_text res of
             Inl err' \<Rightarrow> statusText res
           | Inr t \<Rightarrow> if t = [] then statusText res else t)) \<and>
   (fetch (toPayload values) = Inr res \<and>
    includes_str (case content_type res of None \<Rightarrow> [] | Some h \<Rightarrow> h)
      (ascii ''application/json'') \<and>
    body_json res = Inl err \<longrightarrow>
      status (onSubmit fetch values st) = Error \<and>
      status_bar (App (onSubmit fetch values st)) = String err) \<and>
   (fetch (toPayload values) = Inr res \<and>
    includes_str (case content_type res of None \<Rightarrow> [] | Some h \<Rightarrow> h)
      (ascii ''application/json'') \<and>
    body_json res = Inr (ApiError e) \<longrightarrow>
      status (onSubmit fetch values st) = Error \<and>
      status_bar (App (onSubmit fetch values st)) = e)"
proof (intro conjI impI)
  assume "fetch (toPayload values) = Inl err"
  then have "result (onSubmit fetch values st) = Some (ApiError (String err))"
    by (simp add: onSubmit_result postQuote_rejected)
  then show "status (onSubmit fetch values st) = Error"
    and "status_bar (App (onSubmit fetch values st)) = String err"
    by (simp_all add: onSubmit_status App_def StatusBar_def)
next
  assume a: "fetch (toPayload values) = Inr res \<and>
    \<not> includes_str (case content_type res of None \<Rightarrow> [] | Some h \<Rightarrow> h)
        (ascii ''application/json'')"
  then have "result (onSubmit fetch values st) =
      Some (ApiError (ascii ''Unexpected response: '' @
          (case body_text res of
             Inl err' \<Rightarrow> statusText res
           | Inr t \<Rightarrow> if t = [] then statusText res else t)))"
    by (simp add: onSubmit_result postQuote_def Let_def split: sum.splits)
  then show "status (onSubmit fetch values st) = Error"
    and "status_bar (App (onSubmit fetch values st)) =
        ascii ''Unexpected response: '' @
          (case body_text res of
             Inl err' \<Rightarrow> statusText res
           | Inr t \<Rightarrow> if t = [] then statusText res else t)"
    by (simp_all add: onSubmit_status App_def StatusBar_def)
next
  assume a: "fetch (toPayload values) = Inr res \<and>
    includes_str (case content_type res of None \<Rightarrow> [] | Some h \<Rightarrow> h)
      (ascii ''application/json'') \<and>
    body_json res = Inl err"
  then have "result (onSubmit fetch values st) = Some (ApiError (String err))"
    using postQuote_json_response [of fetch "toPayload values" res]
    by (simp add: onSubmit_result)
  then show "status (onSubmit fetch values st) = Error"
    and "status_bar (App (onSubmit fetch values st)) = String err"
    by (simp_all add: onSubmit_status App_def StatusBar_def)
next
  assume a: "fetch (toPayload values) = Inr res \<and>
    includes_str (case content_type res of None \<Rightarrow> [] | Some h \<Rightarrow> h)
      (ascii ''application/json'') \<and>
    body_json res = Inr (ApiError e)"
  then have "result (onSubmit fetch values st) = Some (ApiError e)"
    using postQuote_json_response [of fetch "toPayload values" res]
    by (simp add: onSubmit_result)
  then show "status (onSubmit fetch values st) = Error"
    and "status_bar (App (onSubmit fetch values st)) = e"
    by (simp_all add: onSubmit_status App_def StatusBar_def)
qed

text \<open>
  A rejected \<open>fetch\<close>, an empty HTML answer, a JSON answer that cannot be decoded, and
  the answer of the test "handles 502 error" (with an ASCII message).
\<close>

theorem status_bar_shows_result_error_witness:
  "status_bar (App (onSubmit (\<lambda>_. Inl (Thrown (ascii ''TypeError: Failed to fetch'')))
     readme_request initial)) = ascii ''TypeError: Failed to fetch'' \<and>
   status_bar (App (onSubmit
     (\<lambda>_. Inr \<lparr>content_type = None, statusText = ascii ''Bad Gateway'', body_text = Inr [],
               body_json = Inl (Thrown (ascii ''SyntaxError''))\<rparr>)
     readme_request initial)) = ascii ''Unexpected response: Bad Gateway'' \<and>
   status_bar (App (onSubmit
     (\<lambda>_. Inr \<lparr>content_type = Some (ascii ''application/json''), statusText = ascii ''OK'',
               body_text = Inr [], body_json = Inl (Thrown (ascii ''SyntaxError''))\<rparr>)
     readme_request initial)) = ascii ''SyntaxError'' \<and>
   status_bar (App (onSubmit
     (\<lambda>_. Inr \<lparr>content_type = Some (ascii ''application/json''), statusText = ascii ''Bad Gateway'',
               body_text = Inr [], body_json = Inr (ApiError (ascii ''PDF error''))\<rparr>)
     readme_request initial)) = ascii ''PDF error''"
proof -
  let ?f1 = "(\<lambda>_. Inl (Thrown (ascii ''TypeError: Failed to fetch''))) :: fetch"
  let ?r2 = "\<lparr>content_type = None, statusText = ascii ''Bad Gateway'', body_text = Inr [],
               body_json = Inl (Thrown (ascii ''SyntaxError''))\<rparr>"
  let ?r3 = "\<lparr>content_type = Some (ascii ''application/json''), statusText = ascii ''OK'',
               body_text = Inr [], body_json = Inl (Thrown (ascii ''SyntaxError''))\<rparr>"
  let ?r4 = "\<lparr>content_type = Some (ascii ''application/json''), statusText = ascii ''Bad Gateway'',
               body_text = Inr [], body_json = Inr (ApiError (ascii ''PDF error''))\<rparr>"
  have ct: "\<not> includes_str [] (ascii ''application/json'')"
    "includes_str (ascii ''application/json'') (ascii ''application/json'')"
    by (simp_all add: ascii_def)
  from ct
    status_bar_shows_result_error
      [of ?f1 readme_request "Thrown (ascii ''TypeError: Failed to fetch'')" initial]
    status_bar_shows_result_error [of "(\<lambda>_. Inr ?r2) :: fetch" readme_request _ initial ?r2]
    status_bar_shows_result_error
      [of "(\<lambda>_. Inr ?r3) :: fetch" readme_request "Thrown (ascii ''SyntaxError'')" initial ?r3]
    status_bar_shows_result_error
      [of "(\<lambda>_. Inr ?r4) :: fetch" readme_request _ initial ?r4 "ascii ''PDF error''"]
  show ?thesis
    by (simp add: ascii_def)
qed

section \<open>What a submission writes to the console\<close>

lemma onSubmit_console:
  "console (onSubmit fetch values st) =
     console st @
       [[LogStr (ascii ''onSubmit values''), LogObj values],
        [LogStr (ascii ''postQuote called''), LogObj (toPayload values)]]"
  by (simp add: onSubmit_def postQuote_def Let_def pushEvent_def
        split: prod.splits sum.splits ApiResponse.splits)

lemma readme_regex_cases:
  "test email_regex (ascii ''test@example.com'')"
  "test tg_username_regex (ascii ''@client'')"
  by code_simp+

text \<open>The form values of the README request are accepted and parsed to \<open>readme_request\<close>.\<close>

lemma quoteSchema_readme_form: "quoteSchema readme_form = Inr readme_request"
  using readme_regex_cases
  by (simp add: quoteSchema_def readme_form_def readme_request_def schema_defs fefcoOptions_def
        materialOptions_def slaOptions_def printOptions_def ascii_eq_Nil)

text \<open>
  Claim C1 fails on the code: whatever the network answers, submitting the request of
  the README writes two records to the console, one by the submit handler and one by
  \<open>postQuote\<close>, and each holds the whole payload as it is, the phone, the email and the
  other contact fields unmasked.
\<close>

theorem submission_logs_unmasked_payload:
  "console (handleSubmit fetch readme_form initial) =
     [[LogStr (ascii ''onSubmit values''), LogObj readme_request],
      [LogStr (ascii ''postQuote called''), LogObj readme_request]] \<and>
   snd (postQuote fetch readme_request []) =
     [[LogStr (ascii ''postQuote called''), LogObj readme_request]] \<and>
   phone readme_request = Some (ascii ''+7 999 000-00-00'') \<and>
   email readme_request = Some (ascii ''test@example.com'') \<and>
   tg_username readme_request = Some (ascii ''@client'')"
proof -
  have "console (handleSubmit fetch readme_form initial) =
     [[LogStr (ascii ''onSubmit values''), LogObj readme_request],
      [LogStr (ascii ''postQuote called''), LogObj readme_request]]"
    by (simp add: handleSubmit_def quoteSchema_readme_form onSubmit_console initial_def
          toPayload_def)
  moreover have "snd (postQuote fetch readme_request []) =
     [[LogStr (ascii ''postQuote called''), LogObj readme_request]]"
    by (simp add: postQuote_def Let_def split: sum.splits)
  moreover have "phone readme_request = Some (ascii ''+7 999 000-00-00'')"
    "email readme_request = Some (ascii ''test@example.com'')"
    "tg_username readme_request = Some (ascii ''@client'')"
    by (simp_all add: readme_request_def)
  ultimately show ?thesis
    by simp
qed

section \<open>Resolution of a price record\<close>

text \<open>
  Claim C5. For every request and candidates with at least one eligible candidate,
  strict resolution succeeds if and only if an eligible candidate exists whose band
  contains the requested quantity; what it returns is then such a candidate; otherwise
  it fails \<open>NotFound\<close>. The resolver is a function, so it has no side effect.
\<close>

theorem resolve_strict_band:
  assumes "\<exists>c \<in> set candidates. eligible req c"
  shows "((\<exists>r. resolve Strict req candidates = Inr r) \<longleftrightarrow>
            (\<exists>c \<in> set candidates. eligible req c \<and> in_band (req_qty req) c)) \<and>
         (\<forall>r. resolve Strict req candidates = Inr r \<longrightarrow>
            r \<in> set candidates \<and> eligible req r \<and> in_band (req_qty req) r) \<and>
         (\<not> (\<exists>c \<in> set candidates. eligible req c \<and> in_band (req_qty req) c) \<longrightarrow>
            resolve Strict req candidates = Inl NotFound)"
proof -
  have found: "r \<in> set candidates \<and> eligible req r \<and> in_band (req_qty req) r"
    if "resolve Strict req candidates = Inr r" for r
    using that by (auto simp: resolve_def find_Some_iff split: option.splits dest: nth_mem)
  have none: "resolve Strict req candidates = Inl NotFound"
    if "\<not> (\<exists>c \<in> set candidates. eligible req c \<and> in_band (req_qty req) c)"
    using that by (auto simp: resolve_def find_None_iff split: option.splits)
  have some: "\<exists>r. resolve Strict req candidates = Inr r"
    if "\<exists>c \<in> set candidates. eligible req c \<and> in_band (req_qty req) c"
  proof -
    from that have "find (in_band (req_qty req)) (filter (eligible req) candidates) \<noteq> None"
      by (auto simp: find_None_iff)
    then show ?thesis
      by (auto simp: resolve_def)
  qed
  from found none some show ?thesis
    by blast
qed

text \<open>
  Scenario A: with the bands [100, 500] and [501, 2000] in the catalog the quantity 1000
  resolves to the second; the quantity 5000 is in no band and fails \<open>NotFound\<close>.
\<close>

theorem resolve_strict_band_witness:
  "(\<exists>c \<in> set [band_record 100 500 [0x41], band_record 501 2000 [0x42]].
      eligible scenario_request c) \<and>
   resolve Strict scenario_request [band_record 100 500 [0x41], band_record 501 2000 [0x42]] =
     Inr (band_record 501 2000 [0x42]) \<and>
   resolve Strict (scenario_request\<lparr>req_qty := 5000\<rparr>)
     [band_record 100 500 [0x41], band_record 501 2000 [0x42]] = Inl NotFound"
proof -
  let ?cs = "[band_record 100 500 [0x41], band_record 501 2000 [0x42]]"
  have e: "\<exists>c \<in> set ?cs. eligible scenario_request c"
    "\<exists>c \<in> set ?cs. eligible (scenario_request\<lparr>req_qty := 5000\<rparr>) c"
    by (simp_all add: eligible_def scenario_request_def band_record_def)
  have "\<not> (\<exists>c \<in> set ?cs. eligible (scenario_request\<lparr>req_qty := 5000\<rparr>) c \<and>
            in_band (req_qty (scenario_request\<lparr>req_qty := 5000\<rparr>)) c)"
    by (simp add: in_band_def band_record_def)
  with resolve_strict_band [OF e(2)]
  have nf: "resolve Strict (scenario_request\<lparr>req_qty := 5000\<rparr>) ?cs = Inl NotFound"
    by blast
  have "\<exists>c \<in> set ?cs. eligible scenario_request c \<and> in_band (req_qty scenario_request) c"
    by (simp add: eligible_def in_band_def scenario_request_def band_record_def)
  with resolve_strict_band [OF e(1)]
  obtain r where r: "resolve Strict scenario_request ?cs = Inr r"
    "r \<in> set ?cs" "in_band (req_qty scenario_request) r"
    by blast
  then have "r = band_record 501 2000 [0x42]"
    by (auto simp: in_band_def scenario_request_def band_record_def)
  with r(1) nf e(1) show ?thesis
    by simp
qed

text \<open>
  The order behind the fallback selection: nearer to the midpoint first, the smaller
  \<open>qty_min\<close> among equally near bands.
\<close>

lemma nearest_mem: "nearest q best cs \<in> set (best # cs)"
  by (induction cs arbitrary: best) auto

lemma nearest_least:
  "\<forall>c \<in> set (best # cs).
     distance q (nearest q best cs) < distance q c \<or>
     (distance q (nearest q best cs) = distance q c \<and> qty_min (nearest q best cs) \<le> qty_min c)"
proof (induction cs arbitrary: best)
  case Nil
  show ?case by simp
next
  case (Cons c cs)
  let ?b = "if nearer q c best then c else best"
  let ?r = "nearest q ?b cs"
  from Cons.IH [of ?b]
  have rest: "\<forall>c' \<in> set cs. distance q ?r < distance q c' \<or>
        (distance q ?r = distance q c' \<and> qty_min ?r \<le> qty_min c')"
    and kept: "distance q ?r < distance q ?b \<or>
        (distance q ?r = distance q ?b \<and> qty_min ?r \<le> qty_min ?b)"
    by simp_all
  have "distance q ?b < distance q best \<or>
        (distance q ?b = distance q best \<and> qty_min ?b \<le> qty_min best)"
    by (simp add: nearer_def)
  with kept have to_best: "distance q ?r < distance q best \<or>
        (distance q ?r = distance q best \<and> qty_min ?r \<le> qty_min best)"
    by linarith
  have "distance q ?b < distance q c \<or>
        (distance q ?b = distance q c \<and> qty_min ?b \<le> qty_min c)"
    by (auto simp: nearer_def)
  with kept have to_c: "distance q ?r < distance q c \<or>
        (distance q ?r = distance q c \<and> qty_min ?r \<le> qty_min c)"
    by linarith
  from rest to_best to_c show ?case
    by simp
qed

text \<open>
  Claim C6. Under the fallback policy, when eligible candidates exist the resolver
  returns an eligible candidate that minimises the distance between the requested
  quantity and the midpoint of the band, and that has the smallest \<open>qty_min\<close> among the
  equally near ones; with no eligible candidate it fails \<open>NotFound\<close>; and with eligible
  bands [100, 500] and [501, 2000] and the quantity 1000 it selects [501, 2000], in
  whichever order the two are given.
\<close>

theorem resolve_fallback_nearest:
  "((\<exists>c \<in> set candidates. eligible req c) \<longrightarrow>
      (\<exists>r. resolve Fallback req candidates = Inr r \<and> r \<in> set candidates \<and> eligible req r \<and>
         (\<forall>c \<in> set candidates. eligible req c \<longrightarrow>
            distance (req_qty req) r < distance (req_qty req) c \<or>
            (distance (req_qty req) r = distance (req_qty req) c \<and> qty_min r \<le> qty_min c)))) \<and>
   (\<not> (\<exists>c \<in> set candidates. eligible req c) \<longrightarrow>
      resolve Fallback req candidates = Inl NotFound) \<and>
   (req_qty req = 1000 \<and> eligible req a \<and> eligible req b \<and>
    qty_min a = 100 \<and> qty_max a = 500 \<and> qty_min b = 501 \<and> qty_max b = 2000 \<longrightarrow>
      resolve Fallback req [a, b] = Inr b \<and> resolve Fallback req [b, a] = Inr b)"
proof (intro conjI impI)
  assume "\<exists>c \<in> set candidates. eligible req c"
  then obtain e es where els: "filter (eligible req) candidates = e # es"
    by (cases "filter (eligible req) candidates") (auto simp: filter_empty_conv)
  let ?r = "nearest (req_qty req) e es"
  have res: "resolve Fallback req candidates = Inr ?r"
    by (simp add: resolve_def els)
  have "?r \<in> set (filter (eligible req) candidates)"
    using nearest_mem [of "req_qty req" e es] by (simp only: els)
  then have mem: "?r \<in> set candidates" "eligible req ?r"
    by simp_all
  have "\<forall>c \<in> set (filter (eligible req) candidates).
      distance (req_qty req) ?r < distance (req_qty req) c \<or>
      (distance (req_qty req) ?r = distance (req_qty req) c \<and> qty_min ?r \<le> qty_min c)"
    using nearest_least [of e es "req_qty req"] by (simp only: els)
  then have "\<forall>c \<in> set candidates. eligible req c \<longrightarrow>
      distance (req_qty req) ?r < distance (req_qty req) c \<or>
      (distance (req_qty req) ?r = distance (req_qty req) c \<and> qty_min ?r \<le> qty_min c)"
    by simp
  with res mem show "\<exists>r. resolve Fallback req candidates = Inr r \<and> r \<in> set candidates \<and>
      eligible req r \<and>
      (\<forall>c \<in> set candidates. eligible req c \<longrightarrow>
         distance (req_qty req) r < distance (req_qty req) c \<or>
         (distance (req_qty req) r = distance (req_qty req) c \<and> qty_min r \<le> qty_min c))"
    by blast
next
  assume "\<not> (\<exists>c \<in> set candidates. eligible req c)"
  then have "filter (eligible req) candidates = []"
    by (simp add: filter_empty_conv)
  then show "resolve Fallback req candidates = Inl NotFound"
    by (simp add: resolve_def)
next
  assume a: "req_qty req = 1000 \<and> eligible req a \<and> eligible req b \<and>
    qty_min a = 100 \<and> qty_max a = 500 \<and> qty_min b = 501 \<and> qty_max b = 2000"
  then have "distance 1000 a = 700" "distance 1000 b = 501 / 2"
    by (simp_all add: distance_def)
  with a show "resolve Fallback req [a, b] = Inr b" and "resolve Fallback req [b, a] = Inr b"
    by (simp_all add: resolve_def nearer_def)
qed

text \<open>
  The example of the specification at the request of Scenario A, and the tie of the
  quantity 300 between the bands [200, 600] and [100, 300], whose midpoints 400 and 200
  are equally far: the band with the smaller \<open>qty_min\<close> wins.
\<close>

theorem resolve_fallback_nearest_witness:
  "resolve Fallback scenario_request [band_record 100 500 [0x41], band_record 501 2000 [0x42]] =
     Inr (band_record 501 2000 [0x42]) \<and>
   resolve Fallback (scenario_request\<lparr>req_qty := 300\<rparr>)
     [band_record 200 600 [0x41], band_record 100 300 [0x42]] =
     Inr (band_record 100 300 [0x42]) \<and>
   resolve Fallback scenario_request ([] :: PriceRecord list) = Inl NotFound"
proof -
  let ?a = "band_record 100 500 [0x41]" and ?b = "band_record 501 2000 [0x42]"
  let ?c = "band_record 200 600 [0x41]" and ?d = "band_record 100 300 [0x42]"
  let ?req = "scenario_request\<lparr>req_qty := 300\<rparr>"
  have "req_qty scenario_request = 1000 \<and> eligible scenario_request ?a \<and>
      eligible scenario_request ?b \<and> qty_min ?a = 100 \<and> qty_max ?a = 500 \<and>
      qty_min ?b = 501 \<and> qty_max ?b = 2000"
    by (simp add: eligible_def scenario_request_def band_record_def)
  with resolve_fallback_nearest [of "[] :: PriceRecord list" scenario_request ?a ?b]
  have first: "resolve Fallback scenario_request [?a, ?b] = Inr ?b"
    by blast
  have "\<exists>c \<in> set [?c, ?d]. eligible ?req c"
    by (simp add: eligible_def scenario_request_def band_record_def)
  with resolve_fallback_nearest [of "[?c, ?d]" ?req]
  obtain r where r: "resolve Fallback ?req [?c, ?d] = Inr r" "r \<in> set [?c, ?d]"
    "\<forall>c \<in> set [?c, ?d]. eligible ?req c \<longrightarrow>
       distance (req_qty ?req) r < distance (req_qty ?req) c \<or>
       (distance (req_qty ?req) r = distance (req_qty ?req) c \<and> qty_min r \<le> qty_min c)"
    by blast
  have "r \<noteq> ?c"
  proof
    assume "r = ?c"
    with r(3) show False
      by (simp add: eligible_def scenario_request_def band_record_def distance_def)
  qed
  with r(2) have "r = ?d"
    by simp
  with r(1) have second: "resolve Fallback ?req [?c, ?d] = Inr ?d"
    by simp
  have third: "resolve Fallback scenario_request ([] :: PriceRecord list) = Inl NotFound"
    using resolve_fallback_nearest [of "[] :: PriceRecord list" scenario_request ?a ?b]
    by simp
  from first second third show ?thesis
    by simp
qed

section \<open>The cases of \<open>validation.test.ts\<close> on the model\<close>

text \<open>
  The expectations of the test file hold of the embedding: bounds of the dimensions and
  of the quantity, the two patterns, the optional print, the required fields and NaN.
\<close>

lemma test_dimension_bounds:
  "quoteSchema (base(''x_mm'' := JNum (Num 19))) = Inl [''x_mm'']"
  "quoteSchema (base(''x_mm'' := JNum (Num 1201))) = Inl [''x_mm'']"
  by (simp_all add: quoteSchema_def base_def schema_defs options_defs)

lemma test_qty_bounds:
  "quoteSchema (base(''qty'' := JNum (Num 0))) = Inl [''qty'']"
  "quoteSchema (base(''qty'' := JNum (Num 100001))) = Inl [''qty'']"
  by (simp_all add: quoteSchema_def base_def schema_defs options_defs)

lemma email_regex_cases:
  "\<not> test email_regex (ascii ''bad'')"
  "test email_regex (ascii ''a@b.c'')"
  by code_simp+

lemma test_email:
  "quoteSchema (base(''email'' := JStr (ascii ''bad''))) = Inl [''email'']"
  "\<exists>d. quoteSchema (base(''email'' := JStr (ascii ''a@b.c''))) = Inr d"
  using email_regex_cases
  by (simp_all add: quoteSchema_def base_def schema_defs fefcoOptions_def materialOptions_def
        slaOptions_def ascii_eq_Nil)

lemma tg_username_regex_cases:
  "\<not> test tg_username_regex (ascii ''@ab'')"
  "test tg_username_regex (ascii ''@valid_123'')"
  "test tg_username_regex (ascii ''valid_123'')"
  by code_simp+

lemma test_tg_username:
  "quoteSchema (base(''tg_username'' := JStr (ascii ''@ab''))) = Inl [''tg_username'']"
  "\<exists>d. quoteSchema (base(''tg_username'' := JStr (ascii ''@valid_123''))) = Inr d"
  "\<exists>d. quoteSchema (base(''tg_username'' := JStr (ascii ''valid_123''))) = Inr d"
  using tg_username_regex_cases
  by (simp_all add: quoteSchema_def base_def schema_defs fefcoOptions_def materialOptions_def
        slaOptions_def ascii_eq_Nil)

lemma test_print_optional:
  "\<exists>d. quoteSchema (base(''print'' := JUndefined)) = Inr d"
  "\<exists>d. quoteSchema (base(''print'' := JStr (ascii ''1+0''))) = Inr d"
  "\<exists>d. quoteSchema (base(''print'' := JStr [])) = Inr d"
  "quoteSchema (base(''print'' := JStr (ascii ''5+5''))) = Inl [''print'']"
  by (simp_all add: quoteSchema_def base_def schema_defs options_defs)

lemma test_required_fields:
  "quoteSchema (base(''fefco'' := JUndefined)) = Inl [''fefco'']"
  "quoteSchema (base(''material'' := JUndefined)) = Inl [''material'']"
  by (simp_all add: quoteSchema_def base_def schema_defs options_defs)

lemma test_non_numeric:
  "quoteSchema (base(''x_mm'' := JNum NaN)) = Inl [''x_mm'']"
  by (simp add: quoteSchema_def base_def schema_defs options_defs)

end
